theory Spec2Isabelle
  imports Complex_Main
begin

section \<open>The coordinate transform of meglib (baselib.py, class CoordinateTransform)\<close>

text \<open>
  The class keeps four numpy arrays: the 2x2 matrix \<open>A\<close>, the 2-vector \<open>b\<close>, and the cached
  inverse \<open>A_inv\<close>, \<open>b_inv\<close>, plus the string \<open>utm\<close>.  Numbers are modelled as exact reals:
  numpy's float64 rounding is outside this development, so every equation below is an equation
  of exact arithmetic.
\<close>

subsection \<open>Errors\<close>

text \<open>
  The exceptions the modelled code can raise: \<open>LinAlgError\<close> from \<open>scipy.linalg.inv\<close> on a
  singular matrix, \<open>NameError\<close> from reading a name that is bound nowhere, \<open>IndexError\<close> from
  indexing past the end of a sequence or with too many indices, \<open>ValueError\<close> from
  \<open>np.array\<close> on a sequence of arrays of unequal shapes.
\<close>

datatype error = LinAlgError | NameError | IndexError | ValueError

subsection \<open>2-vectors and 2x2 matrices\<close>

type_synonym vec2 = "real \<times> real"

text \<open>A matrix is the pair of its rows.\<close>

type_synonym mat2 = "vec2 \<times> vec2"

definition vadd :: "vec2 \<Rightarrow> vec2 \<Rightarrow> vec2" where
  "vadd u v = (fst u + fst v, snd u + snd v)"

definition vsub :: "vec2 \<Rightarrow> vec2 \<Rightarrow> vec2" where
  "vsub u v = (fst u - fst v, snd u - snd v)"

definition vneg :: "vec2 \<Rightarrow> vec2" where
  "vneg u = (- fst u, - snd u)"

text \<open>\<open>M.dot(v)\<close>: entry k is the sum over l of \<open>M[k,l] * v[l]\<close>.\<close>

definition mat_vec :: "mat2 \<Rightarrow> vec2 \<Rightarrow> vec2" where
  "mat_vec M v =
     (fst (fst M) * fst v + snd (fst M) * snd v,
      fst (snd M) * fst v + snd (snd M) * snd v)"

text \<open>\<open>v.dot(M)\<close>: entry k is the sum over l of \<open>v[l] * M[l,k]\<close>.\<close>

definition vec_mat :: "vec2 \<Rightarrow> mat2 \<Rightarrow> vec2" where
  "vec_mat v M =
     (fst v * fst (fst M) + snd v * fst (snd M),
      fst v * snd (fst M) + snd v * snd (snd M))"

text \<open>\<open>M.dot(N)\<close>: entry (k,m) is the sum over l of \<open>M[k,l] * N[l,m]\<close>.\<close>

definition mat_mat :: "mat2 \<Rightarrow> mat2 \<Rightarrow> mat2" where
  "mat_mat M N =
     ((fst (fst M) * fst (fst N) + snd (fst M) * fst (snd N),
       fst (fst M) * snd (fst N) + snd (fst M) * snd (snd N)),
      (fst (snd M) * fst (fst N) + snd (snd M) * fst (snd N),
       fst (snd M) * snd (fst N) + snd (snd M) * snd (snd N)))"

text \<open>\<open>M.T\<close>\<close>

definition transpose2 :: "mat2 \<Rightarrow> mat2" where
  "transpose2 M = ((fst (fst M), fst (snd M)), (snd (fst M), snd (snd M)))"

definition det2 :: "mat2 \<Rightarrow> real" where
  "det2 M = fst (fst M) * snd (snd M) - snd (fst M) * fst (snd M)"

text \<open>
  \<open>scipy.linalg.inv\<close>: raises \<open>LinAlgError\<close> on a singular matrix, returns the inverse
  otherwise.  In exact arithmetic a 2x2 matrix is singular when its determinant is zero.
\<close>

definition linalg_inv :: "mat2 \<Rightarrow> error + mat2" where
  "linalg_inv M =
     (if det2 M = 0 then Inl LinAlgError
      else Inr ((snd (snd M) / det2 M, - snd (fst M) / det2 M),
                (- fst (snd M) / det2 M, fst (fst M) / det2 M)))"

text \<open>\<open>np.identity(2)\<close> and \<open>np.zeros(2)\<close>\<close>

definition identity2 :: mat2 where
  "identity2 = ((1, 0), (0, 1))"

definition zeros2 :: vec2 where
  "zeros2 = (0, 0)"

subsection \<open>The transform as a value\<close>

text \<open>The contents of one CoordinateTransform object: what its five attributes hold.\<close>

record transform =
  A :: mat2
  b :: vec2
  A_inv :: mat2
  b_inv :: vec2
  utm :: string

text \<open>\<open>x_y(self, i_j)\<close>: \<open>self.A.dot(i_j) + self.b\<close>\<close>

definition x_y :: "transform \<Rightarrow> vec2 \<Rightarrow> vec2" where
  "x_y t i_j' = vadd (mat_vec (A t) i_j') (b t)"

text \<open>\<open>i_j(self, x_y)\<close>: \<open>self.A_inv.dot(x_y) + self.b_inv\<close>\<close>

definition i_j :: "transform \<Rightarrow> vec2 \<Rightarrow> vec2" where
  "i_j t x_y' = vadd (mat_vec (A_inv t) x_y') (b_inv t)"

text \<open>\<open>x_y_T(self, ep_cdp)\<close>: \<open>np.array(ep_cdp).dot(self.A.T) + self.b\<close>\<close>

definition x_y_T :: "transform \<Rightarrow> vec2 \<Rightarrow> vec2" where
  "x_y_T t ep_cdp = vadd (vec_mat ep_cdp (transpose2 (A t))) (b t)"

text \<open>\<open>i_j_T(self, x_y)\<close>: \<open>np.array(x_y).dot(self.A_inv.T) + self.b_inv\<close>\<close>

definition i_j_T :: "transform \<Rightarrow> vec2 \<Rightarrow> vec2" where
  "i_j_T t x_y' = vadd (vec_mat x_y' (transpose2 (A_inv t))) (b_inv t)"

text \<open>
  The cached inverse is coherent when \<open>A_inv\<close> is what \<open>linalg.inv(A)\<close> returns and
  \<open>b_inv\<close> is \<open>- A_inv.dot(b)\<close>.
\<close>

definition coherent :: "transform \<Rightarrow> bool" where
  "coherent t \<longleftrightarrow>
     linalg_inv (A t) = Inr (A_inv t) \<and> b_inv t = vneg (mat_vec (A_inv t) (b t))"

subsection \<open>The store: objects and the arrays they refer to\<close>

text \<open>
  An attribute of a Python object holds a reference, and numpy arrays are mutable objects, so
  two transforms may share an array.  The store keeps the arrays and the transform objects in
  two lists; a reference is an index.  Allocation appends, so a new reference differs from
  every reference already in use.  Strings are immutable and are kept by value.  Python has
  no dangling reference: the theorems below take a transform object whose attributes refer to
  arrays of the store (\<open>view s r = Some t\<close>), so no index is read past the end of a list.
\<close>

datatype array = Mat mat2 | Vec vec2

record pyobj =
  A_ref :: nat
  b_ref :: nat
  A_inv_ref :: nat
  b_inv_ref :: nat
  utm_attr :: string

record store =
  arrays :: "array list"
  objs :: "pyobj list"

text \<open>A new array object holding \<open>v\<close>; returns its reference.\<close>

definition new_array :: "array \<Rightarrow> store \<Rightarrow> nat \<times> store" where
  "new_array v s = (length (arrays s), s\<lparr>arrays := arrays s @ [v]\<rparr>)"

text \<open>\<open>deepcopy(x)\<close> of an array: a new array object with the same contents.\<close>

definition deepcopy :: "nat \<Rightarrow> store \<Rightarrow> nat \<times> store" where
  "deepcopy a s = new_array (arrays s ! a) s"

text \<open>Attribute assignment \<open>r.attr = ...\<close> on the transform object \<open>r\<close>.\<close>

definition setattr :: "nat \<Rightarrow> (pyobj \<Rightarrow> pyobj) \<Rightarrow> store \<Rightarrow> store" where
  "setattr r f s = s\<lparr>objs := (objs s)[r := f (objs s ! r)]\<rparr>"

definition get_mat :: "store \<Rightarrow> nat \<Rightarrow> mat2 option" where
  "get_mat s a =
     (if a < length (arrays s)
      then (case arrays s ! a of Mat m \<Rightarrow> Some m | Vec v \<Rightarrow> None) else None)"

definition get_vec :: "store \<Rightarrow> nat \<Rightarrow> vec2 option" where
  "get_vec s a =
     (if a < length (arrays s)
      then (case arrays s ! a of Mat m \<Rightarrow> None | Vec v \<Rightarrow> Some v) else None)"

text \<open>
  What the transform object \<open>r\<close> holds in store \<open>s\<close>: the contents of the arrays its attributes
  refer to.  \<open>None\<close> when \<open>r\<close> is no object of the store or an attribute does not refer to an
  array of the right kind.
\<close>

definition view :: "store \<Rightarrow> nat \<Rightarrow> transform option" where
  "view s r =
     (if r < length (objs s) then
        (case get_mat s (A_ref (objs s ! r)) of None \<Rightarrow> None | Some a \<Rightarrow>
        (case get_vec s (b_ref (objs s ! r)) of None \<Rightarrow> None | Some v \<Rightarrow>
        (case get_mat s (A_inv_ref (objs s ! r)) of None \<Rightarrow> None | Some ai \<Rightarrow>
        (case get_vec s (b_inv_ref (objs s ! r)) of None \<Rightarrow> None | Some vi \<Rightarrow>
           Some \<lparr>A = a, b = v, A_inv = ai, b_inv = vi, utm = utm_attr (objs s ! r)\<rparr>))))
      else None)"

text \<open>The array references the transform object \<open>r\<close> holds.\<close>

definition refs :: "store \<Rightarrow> nat \<Rightarrow> nat list" where
  "refs s r =
     [A_ref (objs s ! r), b_ref (objs s ! r), A_inv_ref (objs s ! r), b_inv_ref (objs s ! r)]"

subsection \<open>Construction\<close>

text \<open>
  \<open>CoordinateTransform()\<close>: a new object whose \<open>__init__\<close> binds
  \<open>A = np.identity(2)\<close>, \<open>b = np.zeros(2)\<close>, \<open>A_inv = linalg.inv(self.A)\<close>,
  \<open>b_inv = - self.A_inv.dot(self.b)\<close> and \<open>utm = ""\<close>.  Returns the reference of the
  new object.
\<close>

definition CoordinateTransform :: "store \<Rightarrow> error + (nat \<times> store)" where
  "CoordinateTransform s0 =
     (let (a, s1) = new_array (Mat identity2) s0;
          (bb, s2) = new_array (Vec zeros2) s1
      in case linalg_inv identity2 of
           Inl e \<Rightarrow> Inl e
         | Inr Ai \<Rightarrow>
             let (ai, s3) = new_array (Mat Ai) s2;
                 (bi, s4) = new_array (Vec (vneg (mat_vec Ai zeros2))) s3
             in Inr (length (objs s4),
                     s4\<lparr>objs := objs s4 @
                        [\<lparr>A_ref = a, b_ref = bb, A_inv_ref = ai, b_inv_ref = bi,
                          utm_attr = []\<rparr>]\<rparr>))"

subsection \<open>The three-point fit\<close>

text \<open>
  The body of \<open>three_point_set\<close> reads the name \<open>ep_cdp_points\<close>, which is neither a
  parameter nor a local variable of the method, so Python looks it up among the globals of the
  module when the line runs.  The model takes the point lists bound at module level as a
  parameter.  baselib.py binds, at module level, only \<open>np\<close>, \<open>linalg\<close>, \<open>os\<close>,
  \<open>pickle\<close>, \<open>zipfile\<close>, \<open>deepcopy\<close>, \<open>AttrDict\<close>, \<open>append_list\<close>,
  \<open>read_pickled_object\<close>, \<open>write_pickled_object\<close>, \<open>save_figs\<close>, \<open>test_path\<close> and
  \<open>CoordinateTransform\<close>: no point list at all.
\<close>

type_synonym globals = "string \<Rightarrow> vec2 list option"

definition baselib_globals :: globals where
  "baselib_globals = (\<lambda>name. None)"

text \<open>
  \<open>three_point_set(self, x_y_points, i_j_points, utm)\<close>, statement by statement.  The result
  is the exception raised, if any, and the store as the method leaves it.
  \<^item> \<open>self.utm = utm\<close>
  \<^item> \<open>dx\<close>, \<open>ds\<close>: the rows are the differences to point 0 of point 2 and of point 1;
    indexing a list of fewer than three points raises \<open>IndexError\<close>
  \<^item> \<open>dx = dx.T\<close>, \<open>ds = ds.T\<close>
  \<^item> \<open>self.A = dx.dot(linalg.inv(ds))\<close>
  \<^item> \<open>self.b = x_y_points[0] - self.A.dot(ep_cdp_points[0])\<close>
  \<^item> \<open>self.A_inv = linalg.inv(self.A)\<close>
  \<^item> \<open>self.b_inv = - self.A_inv.dot(self.b)\<close>
\<close>

definition three_point_set ::
  "globals \<Rightarrow> nat \<Rightarrow> vec2 list \<Rightarrow> vec2 list \<Rightarrow> string \<Rightarrow> store \<Rightarrow> error option \<times> store" where
  "three_point_set g self x_y_points i_j_points utm' s0 =
     (let s1 = setattr self (\<lambda>ob. ob\<lparr>utm_attr := utm'\<rparr>) s0 in
      if length x_y_points < 3 \<or> length i_j_points < 3 then (Some IndexError, s1)
      else
        let dx = transpose2 (vsub (x_y_points ! 2) (x_y_points ! 0),
                             vsub (x_y_points ! 1) (x_y_points ! 0));
            ds = transpose2 (vsub (i_j_points ! 2) (i_j_points ! 0),
                             vsub (i_j_points ! 1) (i_j_points ! 0))
        in (case linalg_inv ds of
              Inl e \<Rightarrow> (Some e, s1)
            | Inr ds_inv \<Rightarrow>
               (let A' = mat_mat dx ds_inv;
                    (a, s2) = new_array (Mat A') s1;
                    s3 = setattr self (\<lambda>ob. ob\<lparr>A_ref := a\<rparr>) s2
                in (case g ''ep_cdp_points'' of
                      None \<Rightarrow> (Some NameError, s3)
                    | Some ep_cdp_points \<Rightarrow>
                       (if ep_cdp_points = [] then (Some IndexError, s3)
                        else
                         (let b' = vsub (x_y_points ! 0) (mat_vec A' (ep_cdp_points ! 0));
                              (bb, s4) = new_array (Vec b') s3;
                              s5 = setattr self (\<lambda>ob. ob\<lparr>b_ref := bb\<rparr>) s4
                          in (case linalg_inv A' of
                                Inl e \<Rightarrow> (Some e, s5)
                              | Inr Ai \<Rightarrow>
                                 (let (ai, s6) = new_array (Mat Ai) s5;
                                      s7 = setattr self (\<lambda>ob. ob\<lparr>A_inv_ref := ai\<rparr>) s6;
                                      (bi, s8) = new_array (Vec (vneg (mat_vec Ai b'))) s7;
                                      s9 = setattr self (\<lambda>ob. ob\<lparr>b_inv_ref := bi\<rparr>) s8
                                  in (None, s9)))))))))"

text \<open>
  Three points are collinear (two of them may coincide) when the cross product of the
  differences to point 0 vanishes.
\<close>

definition collinear3 :: "vec2 list \<Rightarrow> bool" where
  "collinear3 ps \<longleftrightarrow>
     (fst (ps ! 2) - fst (ps ! 0)) * (snd (ps ! 1) - snd (ps ! 0))
       - (fst (ps ! 1) - fst (ps ! 0)) * (snd (ps ! 2) - snd (ps ! 0)) = 0"

subsection \<open>Copies\<close>

text \<open>
  \<open>clone(self)\<close>: a new transform object, then each of the four array attributes of the new
  object is bound to a \<open>deepcopy\<close> of the array \<open>self\<close> holds.
\<close>

definition clone :: "nat \<Rightarrow> store \<Rightarrow> error + (nat \<times> store)" where
  "clone self s0 =
     (case CoordinateTransform s0 of
        Inl e \<Rightarrow> Inl e
      | Inr (new_transform, s1) \<Rightarrow>
          let (a, s2) = deepcopy (A_ref (objs s1 ! self)) s1;
              s3 = setattr new_transform (\<lambda>ob. ob\<lparr>A_ref := a\<rparr>) s2;
              (bb, s4) = deepcopy (b_ref (objs s3 ! self)) s3;
              s5 = setattr new_transform (\<lambda>ob. ob\<lparr>b_ref := bb\<rparr>) s4;
              (ai, s6) = deepcopy (A_inv_ref (objs s5 ! self)) s5;
              s7 = setattr new_transform (\<lambda>ob. ob\<lparr>A_inv_ref := ai\<rparr>) s6;
              (bi, s8) = deepcopy (b_inv_ref (objs s7 ! self)) s7;
              s9 = setattr new_transform (\<lambda>ob. ob\<lparr>b_inv_ref := bi\<rparr>) s8
          in Inr (new_transform, s9))"

subsection \<open>Arrays of any rank\<close>

text \<open>
  A numpy array of reals: its shape and the entry at each multi-index.  The entry function
  is read only at the multi-indices of the shape.
\<close>

record ndarray =
  shape :: "nat list"
  item :: "nat list \<Rightarrow> real"

text \<open>A multi-index of a shape: one index per axis, each below the extent of its axis.\<close>

definition valid_index :: "nat list \<Rightarrow> nat list \<Rightarrow> bool" where
  "valid_index shp idx \<longleftrightarrow> list_all2 (\<lambda>k n. k < n) idx shp"

text \<open>Entry \<open>M[k,l]\<close> of a 2x2 matrix and entry \<open>v[k]\<close> of a 2-vector.\<close>

definition entry :: "mat2 \<Rightarrow> nat \<Rightarrow> nat \<Rightarrow> real" where
  "entry M k l =
     (if k = 0 then (if l = 0 then fst (fst M) else snd (fst M))
      else (if l = 0 then fst (snd M) else snd (snd M)))"

definition comp2 :: "vec2 \<Rightarrow> nat \<Rightarrow> real" where
  "comp2 v k = (if k = 0 then fst v else snd v)"

text \<open>
  \<open>np.array([i, j])\<close> stacks two arrays of one shape along a new first axis.  On arrays
  of unequal shapes numpy (1.24 and later) raises \<open>ValueError\<close>: the requested array has an
  inhomogeneous shape.
\<close>

definition np_array2 :: "ndarray \<Rightarrow> ndarray \<Rightarrow> error + ndarray" where
  "np_array2 i j =
     (if shape i = shape j
      then Inr \<lparr>shape = 2 # shape i,
                item = (\<lambda>idx. case idx of [] \<Rightarrow> 0
                              | k # rest \<Rightarrow> if k = 0 then item i rest else item j rest)\<rparr>
      else Inl ValueError)"

text \<open>\<open>a.T\<close> reverses the axes.\<close>

definition nd_T :: "ndarray \<Rightarrow> ndarray" where
  "nd_T a = \<lparr>shape = rev (shape a), item = (\<lambda>idx. item a (rev idx))\<rparr>"

text \<open>
  \<open>a.dot(M)\<close> for a 2x2 matrix \<open>M\<close>: the sum product over the last axis of \<open>a\<close> and the first
  axis of \<open>M\<close>; \<open>ValueError\<close> when the last axis of \<open>a\<close> has not extent 2 (shapes not
  aligned); a rank-0 \<open>a\<close> multiplies \<open>M\<close> as a scalar.
\<close>

definition nd_dot :: "ndarray \<Rightarrow> mat2 \<Rightarrow> error + ndarray" where
  "nd_dot a M =
     (if shape a = []
      then Inr \<lparr>shape = [2, 2],
                item = (\<lambda>idx. item a [] * entry M (idx ! 0) (idx ! 1))\<rparr>
      else if last (shape a) = 2
      then Inr \<lparr>shape = butlast (shape a) @ [2],
                item = (\<lambda>idx. item a (butlast idx @ [0]) * entry M 0 (last idx)
                             + item a (butlast idx @ [1]) * entry M 1 (last idx))\<rparr>
      else Inl ValueError)"

text \<open>
  \<open>a + v\<close> for a 2-vector \<open>v\<close>, by numpy's broadcasting: \<open>v\<close> runs along the last axis of
  \<open>a\<close>, which must have extent 2, or extent 1 (and is then stretched to 2); a rank-0 \<open>a\<close> is
  added to both entries of \<open>v\<close>; any other extent raises \<open>ValueError\<close>.
\<close>

definition nd_add_vec :: "ndarray \<Rightarrow> vec2 \<Rightarrow> error + ndarray" where
  "nd_add_vec a v =
     (if shape a = []
      then Inr \<lparr>shape = [2], item = (\<lambda>idx. item a [] + comp2 v (last idx))\<rparr>
      else if last (shape a) = 2
      then Inr \<lparr>shape = shape a, item = (\<lambda>idx. item a idx + comp2 v (last idx))\<rparr>
      else if last (shape a) = 1
      then Inr \<lparr>shape = butlast (shape a) @ [2],
                item = (\<lambda>idx. item a (butlast idx @ [0]) + comp2 v (last idx))\<rparr>
      else Inl ValueError)"

text \<open>
  \<open>x[k, :, ..., :]\<close> written with \<open>n\<close> indices in all (the integer \<open>k\<close> and \<open>n - 1\<close> full
  slices): \<open>IndexError\<close> when \<open>x\<close> has fewer than \<open>n\<close> axes (too many indices) or \<open>k\<close> is
  not below the extent of the first axis; otherwise the sub-array at \<open>k\<close>, the axes beyond
  the \<open>n\<close>-th kept whole.
\<close>

definition subscript :: "nat \<Rightarrow> nat \<Rightarrow> ndarray \<Rightarrow> error + ndarray" where
  "subscript n k x =
     (if length (shape x) < n \<or> shape x = [] then Inl IndexError
      else if k < hd (shape x)
      then Inr \<lparr>shape = tl (shape x), item = (\<lambda>idx. item x (k # idx))\<rparr>
      else Inl IndexError)"

text \<open>
  The four array forms have one body; in \<open>x_y_array\<close> it reads
  \<open>s = np.array([i, j]); x = (s.T.dot(self.A.T) + self.b).T; return x[0,:,:], x[1,:,:]\<close>.
  The inverse forms use \<open>self.A_inv\<close> and \<open>self.b_inv\<close>, the vector forms return
  \<open>x[0,:], x[1,:]\<close>.
\<close>

text \<open>\<open>x_y_array(self, i, j)\<close>\<close>

definition x_y_array :: "transform \<Rightarrow> ndarray \<Rightarrow> ndarray \<Rightarrow> error + (ndarray \<times> ndarray)" where
  "x_y_array t i j =
     (case np_array2 i j of Inl e \<Rightarrow> Inl e | Inr s \<Rightarrow>
     (case nd_dot (nd_T s) (transpose2 (A t)) of Inl e \<Rightarrow> Inl e | Inr d \<Rightarrow>
     (case nd_add_vec d (b t) of Inl e \<Rightarrow> Inl e | Inr y \<Rightarrow>
     (let x = nd_T y in
     (case subscript 3 0 x of Inl e \<Rightarrow> Inl e | Inr x0 \<Rightarrow>
     (case subscript 3 1 x of Inl e \<Rightarrow> Inl e | Inr x1 \<Rightarrow> Inr (x0, x1)))))))"

text \<open>\<open>i_j_array(self, x_in, y_in)\<close>\<close>

definition i_j_array :: "transform \<Rightarrow> ndarray \<Rightarrow> ndarray \<Rightarrow> error + (ndarray \<times> ndarray)" where
  "i_j_array t x_in y_in =
     (case np_array2 x_in y_in of Inl e \<Rightarrow> Inl e | Inr s \<Rightarrow>
     (case nd_dot (nd_T s) (transpose2 (A_inv t)) of Inl e \<Rightarrow> Inl e | Inr d \<Rightarrow>
     (case nd_add_vec d (b_inv t) of Inl e \<Rightarrow> Inl e | Inr y \<Rightarrow>
     (let x = nd_T y in
     (case subscript 3 0 x of Inl e \<Rightarrow> Inl e | Inr x0 \<Rightarrow>
     (case subscript 3 1 x of Inl e \<Rightarrow> Inl e | Inr x1 \<Rightarrow> Inr (x0, x1)))))))"

text \<open>\<open>x_y_vector(self, ep, cdp)\<close>\<close>

definition x_y_vector :: "transform \<Rightarrow> ndarray \<Rightarrow> ndarray \<Rightarrow> error + (ndarray \<times> ndarray)" where
  "x_y_vector t ep cdp =
     (case np_array2 ep cdp of Inl e \<Rightarrow> Inl e | Inr s \<Rightarrow>
     (case nd_dot (nd_T s) (transpose2 (A t)) of Inl e \<Rightarrow> Inl e | Inr d \<Rightarrow>
     (case nd_add_vec d (b t) of Inl e \<Rightarrow> Inl e | Inr y \<Rightarrow>
     (let x = nd_T y in
     (case subscript 2 0 x of Inl e \<Rightarrow> Inl e | Inr x0 \<Rightarrow>
     (case subscript 2 1 x of Inl e \<Rightarrow> Inl e | Inr x1 \<Rightarrow> Inr (x0, x1)))))))"

text \<open>\<open>i_j_vector(self, x_in, y_in)\<close>\<close>

definition i_j_vector :: "transform \<Rightarrow> ndarray \<Rightarrow> ndarray \<Rightarrow> error + (ndarray \<times> ndarray)" where
  "i_j_vector t x_in y_in =
     (case np_array2 x_in y_in of Inl e \<Rightarrow> Inl e | Inr s \<Rightarrow>
     (case nd_dot (nd_T s) (transpose2 (A_inv t)) of Inl e \<Rightarrow> Inl e | Inr d \<Rightarrow>
     (case nd_add_vec d (b_inv t) of Inl e \<Rightarrow> Inl e | Inr y \<Rightarrow>
     (let x = nd_T y in
     (case subscript 2 0 x of Inl e \<Rightarrow> Inl e | Inr x0 \<Rightarrow>
     (case subscript 2 1 x of Inl e \<Rightarrow> Inl e | Inr x1 \<Rightarrow> Inr (x0, x1)))))))"

text \<open>
  The body once, for the proofs: with matrix \<open>M\<close>, vector \<open>v\<close> and \<open>n\<close> indices in the
  return expression.
\<close>

definition affine_arrays ::
  "nat \<Rightarrow> mat2 \<Rightarrow> vec2 \<Rightarrow> ndarray \<Rightarrow> ndarray \<Rightarrow> error + (ndarray \<times> ndarray)" where
  "affine_arrays n M v i j =
     (case np_array2 i j of Inl e \<Rightarrow> Inl e | Inr s \<Rightarrow>
     (case nd_dot (nd_T s) (transpose2 M) of Inl e \<Rightarrow> Inl e | Inr d \<Rightarrow>
     (case nd_add_vec d v of Inl e \<Rightarrow> Inl e | Inr y \<Rightarrow>
     (case subscript n 0 (nd_T y) of Inl e \<Rightarrow> Inl e | Inr x0 \<Rightarrow>
     (case subscript n 1 (nd_T y) of Inl e \<Rightarrow> Inl e | Inr x1 \<Rightarrow> Inr (x0, x1))))))"

text \<open>
  Arrays to call the array forms with: \<open>np.zeros(shp)\<close>, \<open>np.array(xs)\<close> of a list of
  numbers, and \<open>np.array(rows)\<close> of a non-empty list of rows of one length.
\<close>

definition np_zeros :: "nat list \<Rightarrow> ndarray" where
  "np_zeros shp = \<lparr>shape = shp, item = (\<lambda>idx. 0)\<rparr>"

definition np_array1 :: "real list \<Rightarrow> ndarray" where
  "np_array1 xs = \<lparr>shape = [length xs], item = (\<lambda>idx. xs ! (idx ! 0))\<rparr>"

definition np_array_rows :: "real list list \<Rightarrow> ndarray" where
  "np_array_rows rows =
     \<lparr>shape = [length rows, length (rows ! 0)], item = (\<lambda>idx. rows ! (idx ! 0) ! (idx ! 1))\<rparr>"

subsection \<open>Float64 arithmetic\<close>

text \<open>
  numpy and scipy compute in float64.  A finite float64 value is a real \<open>m * 2 ^ e\<close> with an
  integer \<open>m\<close> of at most 53 binary digits, and an operation returns its exact result rounded
  to the nearest such value, to the one with the even \<open>m\<close> on a tie.  The model keeps the values
  as reals and rounds after each operation.  It leaves out what the exponent range adds
  (overflow, subnormal numbers, infinities, NaN), and it rounds every multiplication and every
  addition on its own, where a library kernel may fuse the two and round once.
\<close>

text \<open>The number of binary digits of \<open>n\<close>.\<close>

fun nbits :: "nat \<Rightarrow> nat" where
  "nbits n = (if n = 0 then 0 else Suc (nbits (n div 2)))"

declare nbits.simps [simp del]

definition pow2 :: "int \<Rightarrow> real" where
  "pow2 k = (if 0 \<le> k then 2 ^ nat k else 1 / 2 ^ nat (- k))"

text \<open>The binary exponent of \<open>x \<noteq> 0\<close>: the \<open>e\<close> with \<open>2 ^ e \<le> \<bar>x\<bar> < 2 ^ (e + 1)\<close>.\<close>

definition expo :: "real \<Rightarrow> int" where
  "expo x =
     (if 1 \<le> \<bar>x\<bar> then int (nbits (nat \<lfloor>\<bar>x\<bar>\<rfloor>)) - 1
      else (let j = int (nbits (nat \<lfloor>1 / \<bar>x\<bar>\<rfloor>)) - 1
            in if \<bar>x\<bar> * pow2 j = 1 then - j else - j - 1))"

text \<open>The nearest integer, the even one on a tie.\<close>

definition round_even :: "real \<Rightarrow> int" where
  "round_even q =
     (let f = \<lfloor>q\<rfloor>; r = q - of_int f
      in if r < 1 / 2 then f else if 1 / 2 < r then f + 1 else if even f then f else f + 1)"

text \<open>Rounding to float64: to the nearest multiple of \<open>2 ^ (expo x - 52)\<close>.\<close>

definition fl :: "real \<Rightarrow> real" where
  "fl x =
     (if x = 0 then 0
      else of_int (round_even (x * pow2 (52 - expo x))) * pow2 (expo x - 52))"


text \<open>\<open>u + v\<close>, \<open>u - v\<close>, \<open>M.dot(v)\<close> and \<open>M.dot(N)\<close> on float64 arrays.\<close>

definition vadd_f64 :: "vec2 \<Rightarrow> vec2 \<Rightarrow> vec2" where
  "vadd_f64 u v = (fl (fst u + fst v), fl (snd u + snd v))"

definition vsub_f64 :: "vec2 \<Rightarrow> vec2 \<Rightarrow> vec2" where
  "vsub_f64 u v = (fl (fst u - fst v), fl (snd u - snd v))"

definition mat_vec_f64 :: "mat2 \<Rightarrow> vec2 \<Rightarrow> vec2" where
  "mat_vec_f64 M v =
     (fl (fl (fst (fst M) * fst v) + fl (snd (fst M) * snd v)),
      fl (fl (fst (snd M) * fst v) + fl (snd (snd M) * snd v)))"

definition mat_mat_f64 :: "mat2 \<Rightarrow> mat2 \<Rightarrow> mat2" where
  "mat_mat_f64 M N =
     ((fl (fl (fst (fst M) * fst (fst N)) + fl (snd (fst M) * fst (snd N))),
       fl (fl (fst (fst M) * snd (fst N)) + fl (snd (fst M) * snd (snd N)))),
      (fl (fl (fst (snd M) * fst (fst N)) + fl (snd (snd M) * fst (snd N))),
       fl (fl (fst (snd M) * snd (fst N)) + fl (snd (snd M) * snd (snd N)))))"

text \<open>
  \<open>scipy.linalg.inv\<close> on a float64 matrix: LAPACK's \<open>getrf\<close> factorises \<open>P M = L U\<close> with
  partial pivoting, scipy raises \<open>LinAlgError\<close> (singular matrix) when \<open>getrf\<close> reports a
  pivot that is exactly zero, and \<open>getri\<close> otherwise forms the inverse from the factors.  For a
  2x2 matrix, following the reference routines:
  \<^item> the pivot row is the row with the larger entry in column 0 (the first row on a tie);
    \<open>(p, q)\<close> is the pivot row and \<open>(c, d)\<close> the other one;
  \<^item> \<open>p = 0\<close> is a zero pivot; otherwise \<open>l = c * (1 / p)\<close> and the second pivot is
    \<open>u = d - l * q\<close>; \<open>u = 0\<close> is a zero pivot;
  \<^item> the inverse of \<open>U\<close> has the diagonal \<open>1 / p\<close>, \<open>1 / u\<close> and the entry
    \<open>w = - (1 / u) * ((1 / p) * q)\<close> above it; multiplied by the inverse of \<open>L\<close> its first
    column becomes \<open>(1 / p - w * l, - (1 / u) * l)\<close>; the columns are swapped when the rows
    were.
  A matrix that is singular in exact arithmetic passes whenever rounding leaves \<open>u\<close> other
  than zero.
\<close>

definition linalg_inv_f64 :: "mat2 \<Rightarrow> error + mat2" where
  "linalg_inv_f64 M =
     (let swap = \<bar>fst (fst M)\<bar> < \<bar>fst (snd M)\<bar>;
          p = fst (if swap then snd M else fst M);
          q = snd (if swap then snd M else fst M);
          c = fst (if swap then fst M else snd M);
          d = snd (if swap then fst M else snd M)
      in if p = 0 then Inl LinAlgError
         else
           (let l = fl (c * fl (1 / p));
                u = fl (d - fl (l * q))
            in if u = 0 then Inl LinAlgError
               else
                 (let ip = fl (1 / p);
                      iu = fl (1 / u);
                      w = - fl (iu * fl (ip * q));
                      x0 = fl (ip - fl (w * l));
                      x1 = - fl (iu * l)
                  in Inr (if swap then ((w, x0), (iu, x1)) else ((x0, w), (x1, iu))))))"

subsection \<open>The numeric library as a parameter\<close>

text \<open>
  The methods leave their arithmetic to numpy and scipy: \<open>+\<close>, \<open>-\<close>, unary \<open>-\<close>, \<open>dot\<close> and
  \<open>linalg.inv\<close>.  A \<open>numlib\<close> collects these operations, so that a method can be stated for
  whatever the library computes (float64 for arrays of floats, wrapping int64 for the
  difference of arrays of ints).  \<open>exact_lib\<close> is the exact arithmetic of the definitions
  above, \<open>float64_lib\<close> the float64 arithmetic.
\<close>

record numlib =
  lib_add :: "vec2 \<Rightarrow> vec2 \<Rightarrow> vec2"
  lib_sub :: "vec2 \<Rightarrow> vec2 \<Rightarrow> vec2"
  lib_neg :: "vec2 \<Rightarrow> vec2"
  lib_mv :: "mat2 \<Rightarrow> vec2 \<Rightarrow> vec2"
  lib_mm :: "mat2 \<Rightarrow> mat2 \<Rightarrow> mat2"
  lib_inv :: "mat2 \<Rightarrow> error + mat2"

definition exact_lib :: numlib where
  "exact_lib = \<lparr>lib_add = vadd, lib_sub = vsub, lib_neg = vneg, lib_mv = mat_vec,
                 lib_mm = mat_mat, lib_inv = linalg_inv\<rparr>"

definition float64_lib :: numlib where
  "float64_lib = \<lparr>lib_add = vadd_f64, lib_sub = vsub_f64, lib_neg = vneg, lib_mv = mat_vec_f64,
                   lib_mm = mat_mat_f64, lib_inv = linalg_inv_f64\<rparr>"




text \<open>
  \<open>three_point_set\<close> with the operations of the library: the same statements, in the same
  order, as in \<open>three_point_set\<close> above.
\<close>

definition three_point_set_lib ::
  "numlib \<Rightarrow> globals \<Rightarrow> nat \<Rightarrow> vec2 list \<Rightarrow> vec2 list \<Rightarrow> string \<Rightarrow> store \<Rightarrow> error option \<times> store" where
  "three_point_set_lib L g self x_y_points i_j_points utm' s0 =
     (let s1 = setattr self (\<lambda>ob. ob\<lparr>utm_attr := utm'\<rparr>) s0 in
      if length x_y_points < 3 \<or> length i_j_points < 3 then (Some IndexError, s1)
      else
        let dx = transpose2 (lib_sub L (x_y_points ! 2) (x_y_points ! 0),
                             lib_sub L (x_y_points ! 1) (x_y_points ! 0));
            ds = transpose2 (lib_sub L (i_j_points ! 2) (i_j_points ! 0),
                             lib_sub L (i_j_points ! 1) (i_j_points ! 0))
        in (case lib_inv L ds of
              Inl e \<Rightarrow> (Some e, s1)
            | Inr ds_inv \<Rightarrow>
               (let A' = lib_mm L dx ds_inv;
                    (a, s2) = new_array (Mat A') s1;
                    s3 = setattr self (\<lambda>ob. ob\<lparr>A_ref := a\<rparr>) s2
                in (case g ''ep_cdp_points'' of
                      None \<Rightarrow> (Some NameError, s3)
                    | Some ep_cdp_points \<Rightarrow>
                       (if ep_cdp_points = [] then (Some IndexError, s3)
                        else
                         (let b' = lib_sub L (x_y_points ! 0) (lib_mv L A' (ep_cdp_points ! 0));
                              (bb, s4) = new_array (Vec b') s3;
                              s5 = setattr self (\<lambda>ob. ob\<lparr>b_ref := bb\<rparr>) s4
                          in (case lib_inv L A' of
                                Inl e \<Rightarrow> (Some e, s5)
                              | Inr Ai \<Rightarrow>
                                 (let (ai, s6) = new_array (Mat Ai) s5;
                                      s7 = setattr self (\<lambda>ob. ob\<lparr>A_inv_ref := ai\<rparr>) s6;
                                      (bi, s8) = new_array (Vec (lib_neg L (lib_mv L Ai b'))) s7;
                                      s9 = setattr self (\<lambda>ob. ob\<lparr>b_inv_ref := bi\<rparr>) s8
                                  in (None, s9)))))))))"

section \<open>Properties\<close>

subsection \<open>Matrix inverse\<close>

lemma inv_entries_left:
  fixes a :: real
  assumes "a * d - c * e \<noteq> 0"
  shows "d / (a * d - c * e) * (a * x + c * y) + - c / (a * d - c * e) * (e * x + d * y) = x"
    and "- e / (a * d - c * e) * (a * x + c * y) + a / (a * d - c * e) * (e * x + d * y) = y"
proof -
  have "d / (a * d - c * e) * (a * x + c * y) + - c / (a * d - c * e) * (e * x + d * y)
        = ((a * d - c * e) * x) / (a * d - c * e)"
    by (simp add: algebra_simps add_divide_distrib diff_divide_distrib)
  then show "d / (a * d - c * e) * (a * x + c * y) + - c / (a * d - c * e) * (e * x + d * y) = x"
    using assms by simp
  have "- e / (a * d - c * e) * (a * x + c * y) + a / (a * d - c * e) * (e * x + d * y)
        = ((a * d - c * e) * y) / (a * d - c * e)"
    by (simp add: algebra_simps add_divide_distrib diff_divide_distrib)
  then show "- e / (a * d - c * e) * (a * x + c * y) + a / (a * d - c * e) * (e * x + d * y) = y"
    using assms by simp
qed


lemma linalg_inv_Inr:
  assumes "linalg_inv ((a, c), (e, d)) = Inr N"
  shows "a * d - c * e \<noteq> 0"
    and "N = ((d / (a * d - c * e), - c / (a * d - c * e)),
              (- e / (a * d - c * e), a / (a * d - c * e)))"
  using assms by (auto simp: linalg_inv_def det2_def split: if_splits)

lemma linalg_inv_left:
  assumes "linalg_inv M = Inr N"
  shows "mat_vec N (mat_vec M p) = p"
proof -
  obtain a c e d where M: "M = ((a, c), (e, d))" by (metis surj_pair)
  obtain x y where p: "p = (x, y)" by (metis surj_pair)
  note h = linalg_inv_Inr [OF assms [unfolded M]]
  show ?thesis unfolding M p h(2) mat_vec_def using inv_entries_left [OF h(1)]
    by simp
qed


lemma linalg_inv_identity2: "linalg_inv identity2 = Inr identity2"
  by (simp add: linalg_inv_def identity2_def det2_def)




subsection \<open>Forward and inverse map of one point\<close>


text \<open>
  Claim C6.  For every transform and every point \<open>p\<close>, \<open>x_y_T(p)\<close>, which computes
  \<open>p.dot(A.T) + b\<close>, returns what \<open>x_y(p)\<close>, which computes \<open>A.dot(p) + b\<close>, returns, and
  \<open>i_j_T(p)\<close> returns what \<open>i_j(p)\<close> returns, in exact arithmetic.
\<close>

theorem transposed_forms_agree:
  "x_y_T t p = x_y t p \<and> i_j_T t p = i_j t p"
  by (simp add: x_y_T_def x_y_def i_j_T_def i_j_def vec_mat_def mat_vec_def transpose2_def
      mult.commute)

subsection \<open>Construction\<close>

lemma CoordinateTransform_eq:
  "CoordinateTransform s =
     Inr (length (objs s),
          \<lparr>arrays = arrays s @ [Mat identity2, Vec zeros2, Mat identity2, Vec zeros2],
           objs = objs s @ [\<lparr>A_ref = length (arrays s), b_ref = Suc (length (arrays s)),
                             A_inv_ref = Suc (Suc (length (arrays s))),
                             b_inv_ref = Suc (Suc (Suc (length (arrays s)))),
                             utm_attr = []\<rparr>]\<rparr>)"
proof -
  have z: "vneg (mat_vec identity2 zeros2) = zeros2"
    by (simp add: identity2_def zeros2_def vneg_def mat_vec_def)
  show ?thesis
    by (cases s) (simp add: CoordinateTransform_def linalg_inv_identity2 new_array_def z)
qed

lemma view_CoordinateTransform:
  "view \<lparr>arrays = arrays s @ [Mat identity2, Vec zeros2, Mat identity2, Vec zeros2],
         objs = objs s @ [\<lparr>A_ref = length (arrays s), b_ref = Suc (length (arrays s)),
                           A_inv_ref = Suc (Suc (length (arrays s))),
                           b_inv_ref = Suc (Suc (Suc (length (arrays s)))),
                           utm_attr = []\<rparr>]\<rparr>
        (length (objs s))
   = Some \<lparr>A = identity2, b = zeros2, A_inv = identity2, b_inv = zeros2, utm = []\<rparr>"
  by (simp add: view_def get_mat_def get_vec_def nth_append)

text \<open>
  Claim C7.  In any store, \<open>CoordinateTransform()\<close> returns a new object that holds the
  identity: \<open>A = I\<close>, \<open>b = (0,0)\<close>, \<open>A_inv = I\<close>, \<open>b_inv = (0,0)\<close> (and the empty \<open>utm\<close>), so
  that \<open>x_y(p) = p\<close> and \<open>i_j(p) = p\<close> for every point \<open>p\<close>.
\<close>

theorem default_is_identity:
  "\<exists>r s' t. CoordinateTransform s = Inr (r, s') \<and> view s' r = Some t
      \<and> A t = ((1, 0), (0, 1)) \<and> b t = (0, 0) \<and> A_inv t = ((1, 0), (0, 1)) \<and> b_inv t = (0, 0)
      \<and> utm t = []
      \<and> (\<forall>p. x_y t p = p \<and> i_j t p = p)"
proof -
  let ?t = "\<lparr>A = identity2, b = zeros2, A_inv = identity2, b_inv = zeros2, utm = []\<rparr>"
  have "A ?t = ((1, 0), (0, 1)) \<and> b ?t = (0, 0) \<and> A_inv ?t = ((1, 0), (0, 1))
      \<and> b_inv ?t = (0, 0) \<and> utm ?t = [] \<and> (\<forall>p. x_y ?t p = p \<and> i_j ?t p = p)"
    by (simp add: identity2_def zeros2_def x_y_def i_j_def vadd_def mat_vec_def)
  with CoordinateTransform_eq [of s] view_CoordinateTransform [of s] show ?thesis
    by blast
qed

subsection \<open>The store\<close>

lemma det2_ds:
  "det2 (transpose2 (vsub (ps ! 2) (ps ! 0), vsub (ps ! 1) (ps ! 0))) = 0 \<longleftrightarrow> collinear3 ps"
  by (simp add: det2_def transpose2_def vsub_def collinear3_def)

lemma linalg_inv_ds_regular:
  "\<not> collinear3 ps \<Longrightarrow>
   \<exists>N. linalg_inv (transpose2 (vsub (ps ! 2) (ps ! 0), vsub (ps ! 1) (ps ! 0))) = Inr N"
  using det2_ds [of ps] by (simp add: linalg_inv_def)

lemma three_point_set_unbound:
  assumes "3 \<le> length x_y_points" "3 \<le> length i_j_points"
    and "linalg_inv (transpose2 (vsub (i_j_points ! 2) (i_j_points ! 0),
                                 vsub (i_j_points ! 1) (i_j_points ! 0))) = Inr N"
    and "g ''ep_cdp_points'' = None"
  shows "three_point_set g self x_y_points i_j_points u s
         = (Some NameError,
            setattr self (\<lambda>ob. ob\<lparr>A_ref := length (arrays s)\<rparr>)
              (snd (new_array
                 (Mat (mat_mat (transpose2 (vsub (x_y_points ! 2) (x_y_points ! 0),
                                            vsub (x_y_points ! 1) (x_y_points ! 0))) N))
                 (setattr self (\<lambda>ob. ob\<lparr>utm_attr := u\<rparr>) s))))"
  using assms by (simp add: three_point_set_def new_array_def setattr_def)

lemma view_setattr_utm:
  "view s r = Some t \<Longrightarrow> view (setattr r (\<lambda>ob. ob\<lparr>utm_attr := u\<rparr>) s) r = Some (t\<lparr>utm := u\<rparr>)"
  by (auto simp: view_def setattr_def get_mat_def get_vec_def split: option.splits if_splits)

lemma view_setattr_other:
  "r \<noteq> r' \<Longrightarrow> view (setattr r' f s) r = view s r"
  by (simp add: view_def setattr_def get_mat_def get_vec_def cong: option.case_cong)

lemma get_mat_new_array:
  "get_mat s a = Some m \<Longrightarrow> get_mat (snd (new_array x s)) a = Some m"
  by (auto simp: get_mat_def new_array_def nth_append split: if_splits)

lemma get_vec_new_array:
  "get_vec s a = Some m \<Longrightarrow> get_vec (snd (new_array x s)) a = Some m"
  by (auto simp: get_vec_def new_array_def nth_append split: if_splits)

lemma objs_new_array: "objs (snd (new_array x s)) = objs s"
  by (simp add: new_array_def)

lemma view_new_array:
  "view s r = Some t \<Longrightarrow> view (snd (new_array x s)) r = Some t"
  by (auto simp: view_def objs_new_array get_mat_new_array get_vec_new_array split: option.splits if_splits)

lemma view_set_A:
  "view s r = Some t \<Longrightarrow>
   view (setattr r (\<lambda>ob. ob\<lparr>A_ref := length (arrays s)\<rparr>) (snd (new_array (Mat m) s))) r
     = Some (t\<lparr>A := m\<rparr>)"
  by (auto simp: view_def setattr_def new_array_def get_mat_def get_vec_def nth_append split: option.splits if_splits)

lemma view_SomeD:
  assumes "view s r = Some t"
  shows "r < length (objs s)"
    and "A_ref (objs s ! r) < length (arrays s)" "arrays s ! A_ref (objs s ! r) = Mat (A t)"
    and "b_ref (objs s ! r) < length (arrays s)" "arrays s ! b_ref (objs s ! r) = Vec (b t)"
    and "A_inv_ref (objs s ! r) < length (arrays s)"
        "arrays s ! A_inv_ref (objs s ! r) = Mat (A_inv t)"
    and "b_inv_ref (objs s ! r) < length (arrays s)"
        "arrays s ! b_inv_ref (objs s ! r) = Vec (b_inv t)"
    and "utm_attr (objs s ! r) = utm t"
  using assms
  by (auto simp: view_def get_mat_def get_vec_def split: if_splits option.splits array.splits)


lemma fit_eval_generic:
  assumes "view s self = Some t"
    and "3 \<le> length x_y_points" and "3 \<le> length i_j_points"
    and "linalg_inv (transpose2 (vsub (i_j_points ! 2) (i_j_points ! 0),
                                 vsub (i_j_points ! 1) (i_j_points ! 0))) = Inr N"
  shows "fst (three_point_set baselib_globals self x_y_points i_j_points u s) = Some NameError"
    and "view (snd (three_point_set baselib_globals self x_y_points i_j_points u s)) self
         = Some (t\<lparr>utm := u,
                   A := mat_mat (transpose2 (vsub (x_y_points ! 2) (x_y_points ! 0),
                                             vsub (x_y_points ! 1) (x_y_points ! 0))) N\<rparr>)"
proof -
  let ?s1 = "setattr self (\<lambda>ob. ob\<lparr>utm_attr := u\<rparr>) s"
  have g: "baselib_globals ''ep_cdp_points'' = None" by (simp add: baselib_globals_def)
  have e: "three_point_set baselib_globals self x_y_points i_j_points u s
         = (Some NameError,
            setattr self (\<lambda>ob. ob\<lparr>A_ref := length (arrays s)\<rparr>)
              (snd (new_array
                 (Mat (mat_mat (transpose2 (vsub (x_y_points ! 2) (x_y_points ! 0),
                                            vsub (x_y_points ! 1) (x_y_points ! 0))) N))
                 (setattr self (\<lambda>ob. ob\<lparr>utm_attr := u\<rparr>) s))))"
    using assms(2-4) g by (rule three_point_set_unbound)
  show "fst (three_point_set baselib_globals self x_y_points i_j_points u s) = Some NameError"
    by (simp add: e)
  have a: "arrays ?s1 = arrays s" by (simp add: setattr_def)
  have "view ?s1 self = Some (t\<lparr>utm := u\<rparr>)" using assms(1) by (rule view_setattr_utm)
  from view_set_A [OF this] show "view (snd (three_point_set baselib_globals self x_y_points i_j_points u s)) self
         = Some (t\<lparr>utm := u,
                   A := mat_mat (transpose2 (vsub (x_y_points ! 2) (x_y_points ! 0),
                                             vsub (x_y_points ! 1) (x_y_points ! 0))) N\<rparr>)"
    by (simp add: e a)
qed

lemma view_fresh_object:
  "view \<lparr>arrays = [Mat ((1, 0), (0, 1)), Vec (0, 0), Mat ((1, 0), (0, 1)), Vec (0, 0)],
         objs = [\<lparr>A_ref = 0, b_ref = 1, A_inv_ref = 2, b_inv_ref = 3, utm_attr = []\<rparr>]\<rparr> 0
   = Some \<lparr>A = ((1, 0), (0, 1)), b = (0, 0), A_inv = ((1, 0), (0, 1)), b_inv = (0, 0),
           utm = []\<rparr>"
  by (simp add: view_def get_mat_def get_vec_def)

lemma linalg_inv_unit_ds:
  "linalg_inv (transpose2 (vsub ([(0, 0), (1, 0), (0, 1)] ! 2) ([(0, 0), (1, 0), (0, 1)] ! 0),
                           vsub ([(0, 0), (1, 0), (0, 1)] ! 1) ([(0, 0), (1, 0), (0, 1)] ! 0)))
   = Inr ((0, 1), (1, 0))"
  by (simp add: linalg_inv_def det2_def transpose2_def vsub_def)

subsection \<open>The fit on points in general position\<close>

text \<open>
  Claim C1 (the code departs from it).  The claim: on non-collinear points the fit sets \<open>A\<close>
  and \<open>b = dst[0] - A.dot(src[0])\<close>, so that afterwards \<open>x_y(src[k]) = dst[k]\<close>.  The code, on
  the scenario of the specification (\<open>i_j_points\<close> (0,0), (1,0), (0,1) and \<open>x_y_points\<close>
  (5,5), (6,5), (5,6), on a newly constructed transform): \<open>A\<close> is assigned, then the line that
  computes \<open>b\<close> reads the unbound name \<open>ep_cdp_points\<close> and raises \<open>NameError\<close>; \<open>b\<close> still
  holds (0,0), and \<open>x_y\<close> maps the source point (0,0) to (0,0), not to (5,5).
\<close>

theorem fit_concrete_scenario:
  "CoordinateTransform \<lparr>arrays = [], objs = []\<rparr>
     = Inr (0, \<lparr>arrays = [Mat ((1, 0), (0, 1)), Vec (0, 0), Mat ((1, 0), (0, 1)), Vec (0, 0)],
                objs = [\<lparr>A_ref = 0, b_ref = 1, A_inv_ref = 2, b_inv_ref = 3,
                         utm_attr = []\<rparr>]\<rparr>)
   \<and> \<not> collinear3 [(0, 0), (1, 0), (0, 1)] \<and> \<not> collinear3 [(5, 5), (6, 5), (5, 6)]
   \<and> fst (three_point_set baselib_globals 0 [(5, 5), (6, 5), (5, 6)] [(0, 0), (1, 0), (0, 1)] []
        \<lparr>arrays = [Mat ((1, 0), (0, 1)), Vec (0, 0), Mat ((1, 0), (0, 1)), Vec (0, 0)],
         objs = [\<lparr>A_ref = 0, b_ref = 1, A_inv_ref = 2, b_inv_ref = 3, utm_attr = []\<rparr>]\<rparr>)
     = Some NameError
   \<and> view (snd (three_point_set baselib_globals 0 [(5, 5), (6, 5), (5, 6)]
        [(0, 0), (1, 0), (0, 1)] []
        \<lparr>arrays = [Mat ((1, 0), (0, 1)), Vec (0, 0), Mat ((1, 0), (0, 1)), Vec (0, 0)],
         objs = [\<lparr>A_ref = 0, b_ref = 1, A_inv_ref = 2, b_inv_ref = 3, utm_attr = []\<rparr>]\<rparr>)) 0
     = Some \<lparr>A = ((1, 0), (0, 1)), b = (0, 0), A_inv = ((1, 0), (0, 1)), b_inv = (0, 0),
             utm = []\<rparr>
   \<and> x_y \<lparr>A = ((1, 0), (0, 1)), b = (0, 0), A_inv = ((1, 0), (0, 1)), b_inv = (0, 0),
           utm = []\<rparr> (0, 0) = (0, 0)"
proof -
  have l: "3 \<le> length [(5, 5), (6, 5), (5 :: real, 6 :: real)]"
    "3 \<le> length [(0, 0), (1, 0), (0 :: real, 1 :: real)]"
    by simp_all
  have c: "CoordinateTransform \<lparr>arrays = [], objs = []\<rparr>
     = Inr (0, \<lparr>arrays = [Mat ((1, 0), (0, 1)), Vec (0, 0), Mat ((1, 0), (0, 1)), Vec (0, 0)],
                objs = [\<lparr>A_ref = 0, b_ref = 1, A_inv_ref = 2, b_inv_ref = 3,
                         utm_attr = []\<rparr>]\<rparr>)"
    by (simp add: CoordinateTransform_eq identity2_def zeros2_def)
  have n: "\<not> collinear3 [(0, 0), (1, 0), (0, 1)] \<and> \<not> collinear3 [(5, 5), (6, 5), (5, 6)]"
    by (simp add: collinear3_def)
  note e = fit_eval_generic [OF view_fresh_object l linalg_inv_unit_ds, of "[]"]
  have x: "x_y \<lparr>A = ((1, 0), (0, 1)), b = (0, 0), A_inv = ((1, 0), (0, 1)), b_inv = (0, 0),
           utm = []\<rparr> (0, 0) = (0, 0)"
    by (simp add: x_y_def mat_vec_def vadd_def)
  from c n e x show ?thesis
    by (simp add: mat_mat_def transpose2_def vsub_def)
qed

text \<open>
  Claim C2 (the code departs from it).  The claim: the fit fails on collinear source points
  and on nothing else.  The code fails on source points that are not collinear too: on
  \<open>i_j_points\<close> (0,0), (1,0), (0,1) and \<open>x_y_points\<close> (0,0), (2,0), (0,3) it raises
  \<open>NameError\<close>.
\<close>

theorem fit_fails_on_regular_points:
  "\<not> collinear3 [(0, 0), (1, 0), (0, 1)]
   \<and> fst (three_point_set baselib_globals 0 [(0, 0), (2, 0), (0, 3)] [(0, 0), (1, 0), (0, 1)] []
        \<lparr>arrays = [Mat ((1, 0), (0, 1)), Vec (0, 0), Mat ((1, 0), (0, 1)), Vec (0, 0)],
         objs = [\<lparr>A_ref = 0, b_ref = 1, A_inv_ref = 2, b_inv_ref = 3, utm_attr = []\<rparr>]\<rparr>)
     = Some NameError"
proof -
  have l: "3 \<le> length [(0, 0), (2, 0), (0 :: real, 3 :: real)]"
    "3 \<le> length [(0, 0), (1, 0), (0 :: real, 1 :: real)]"
    by simp_all
  have n: "\<not> collinear3 [(0, 0), (1, 0), (0, 1)]"
    by (simp add: collinear3_def)
  from n fit_eval_generic(1) [OF view_fresh_object l linalg_inv_unit_ds, of "[]"]
  show ?thesis by simp
qed

text \<open>
  Claim C8 (the code departs from it).  The claim: after every operation that changes \<open>A\<close> or
  \<open>b\<close> the cached inverse is coherent.  The code: the newly constructed transform is
  coherent; \<open>three_point_set\<close> with \<open>i_j_points\<close> (0,0), (1,0), (0,1) and \<open>x_y_points\<close>
  (0,0), (2,0), (0,2) assigns \<open>A = 2 I\<close> and raises before it reaches the two lines that
  recompute \<open>A_inv\<close> and \<open>b_inv\<close>, so the object is left with \<open>A = 2 I\<close> and \<open>A_inv = I\<close>.
\<close>

theorem fit_breaks_coherence:
  "coherent \<lparr>A = ((1, 0), (0, 1)), b = (0, 0), A_inv = ((1, 0), (0, 1)), b_inv = (0, 0),
             utm = []\<rparr>
   \<and> view \<lparr>arrays = [Mat ((1, 0), (0, 1)), Vec (0, 0), Mat ((1, 0), (0, 1)), Vec (0, 0)],
           objs = [\<lparr>A_ref = 0, b_ref = 1, A_inv_ref = 2, b_inv_ref = 3, utm_attr = []\<rparr>]\<rparr> 0
     = Some \<lparr>A = ((1, 0), (0, 1)), b = (0, 0), A_inv = ((1, 0), (0, 1)), b_inv = (0, 0),
             utm = []\<rparr>
   \<and> view (snd (three_point_set baselib_globals 0 [(0, 0), (2, 0), (0, 2)]
        [(0, 0), (1, 0), (0, 1)] []
        \<lparr>arrays = [Mat ((1, 0), (0, 1)), Vec (0, 0), Mat ((1, 0), (0, 1)), Vec (0, 0)],
         objs = [\<lparr>A_ref = 0, b_ref = 1, A_inv_ref = 2, b_inv_ref = 3, utm_attr = []\<rparr>]\<rparr>)) 0
     = Some \<lparr>A = ((2, 0), (0, 2)), b = (0, 0), A_inv = ((1, 0), (0, 1)), b_inv = (0, 0),
             utm = []\<rparr>
   \<and> \<not> coherent \<lparr>A = ((2, 0), (0, 2)), b = (0, 0), A_inv = ((1, 0), (0, 1)), b_inv = (0, 0),
             utm = []\<rparr>"
proof -
  have l: "3 \<le> length [(0, 0), (2, 0), (0 :: real, 2 :: real)]"
    "3 \<le> length [(0, 0), (1, 0), (0 :: real, 1 :: real)]"
    by simp_all
  have c: "coherent \<lparr>A = ((1, 0), (0, 1)), b = (0, 0), A_inv = ((1, 0), (0, 1)),
      b_inv = (0, 0), utm = []\<rparr>"
    by (simp add: coherent_def linalg_inv_def det2_def vneg_def mat_vec_def)
  have n: "\<not> coherent \<lparr>A = ((2, 0), (0, 2)), b = (0, 0), A_inv = ((1, 0), (0, 1)),
      b_inv = (0, 0), utm = []\<rparr>"
    by (simp add: coherent_def linalg_inv_def det2_def)
  note e = fit_eval_generic(2) [OF view_fresh_object l linalg_inv_unit_ds, of "[]"]
  from c n e view_fresh_object show ?thesis
    by (simp add: mat_mat_def transpose2_def vsub_def)
qed

subsection \<open>The fit with the name bound\<close>

text \<open>
  Were \<open>ep_cdp_points\<close> bound at module level to the list passed as \<open>i_j_points\<close>, the method
  would run to its end on points that are collinear in neither system, leave a coherent
  transform and map each source point to its destination point.  This is what lines 136 to
  138 compute; with the globals of baselib.py they are never reached.
\<close>

lemma det2_mat_mat: "det2 (mat_mat M N) = det2 M * det2 N"
  by (simp add: det2_def mat_mat_def algebra_simps)

lemma det2_linalg_inv:
  assumes "linalg_inv M = Inr N"
  shows "det2 N \<noteq> 0"
proof -
  obtain a c e d where M: "M = ((a, c), (e, d))" by (metis surj_pair)
  define D where "D = a * d - c * e"
  note h = linalg_inv_Inr [OF assms [unfolded M], folded D_def]
  have "det2 N = (d / D) * (a / D) - (- c / D) * (- e / D)"
    by (simp add: det2_def h(2))
  also have "\<dots> = (d * a - c * e) / (D * D)"
    by (simp add: diff_divide_distrib)
  also have "\<dots> = D / (D * D)"
    by (simp add: D_def mult.commute)
  also have "\<dots> = 1 / D"
    using h(1) by simp
  finally show ?thesis using h(1) by simp
qed

lemma mat_vec_mat_mat: "mat_vec (mat_mat M N) v = mat_vec M (mat_vec N v)"
  by (simp add: mat_vec_def mat_mat_def algebra_simps)

lemma mat_vec_vsub: "mat_vec M (vsub u v) = vsub (mat_vec M u) (mat_vec M v)"
  by (simp add: mat_vec_def vsub_def algebra_simps)

lemma mat_vec_columns:
  "mat_vec (transpose2 (u, w)) (1, 0) = u" "mat_vec (transpose2 (u, w)) (0, 1) = w"
  by (simp_all add: mat_vec_def transpose2_def)

lemma fit_matrix_maps_differences:
  assumes "linalg_inv (transpose2 (u, w)) = Inr N"
  shows "mat_vec (mat_mat (transpose2 (p, q)) N) u = p"
    and "mat_vec (mat_mat (transpose2 (p, q)) N) w = q"
proof -
  have "mat_vec N u = (1, 0)"
    using linalg_inv_left [OF assms, of "(1, 0)"] by (simp add: mat_vec_columns)
  then show "mat_vec (mat_mat (transpose2 (p, q)) N) u = p"
    by (simp add: mat_vec_mat_mat mat_vec_columns)
  have "mat_vec N w = (0, 1)"
    using linalg_inv_left [OF assms, of "(0, 1)"] by (simp add: mat_vec_columns)
  then show "mat_vec (mat_mat (transpose2 (p, q)) N) w = q"
    by (simp add: mat_vec_mat_mat mat_vec_columns)
qed

lemma anchor_offset:
  "vadd (mat_vec M s) (vsub d (mat_vec M s0)) = vadd d (mat_vec M (vsub s s0))"
  by (simp add: vadd_def vsub_def mat_vec_def algebra_simps)

lemma vadd_vsub_cancel: "vadd d (vsub e d) = e"
  by (simp add: vadd_def vsub_def)

lemma vsub_self: "vsub s s = (0, 0)" "mat_vec M (0, 0) = (0, 0)" "vadd d (0, 0) = d"
  by (simp_all add: vsub_def mat_vec_def vadd_def)

lemma fit_eval_bound:
  assumes "view s self = Some t"
    and "3 \<le> length x_y_points" and "3 \<le> length i_j_points"
    and "linalg_inv (transpose2 (vsub (i_j_points ! 2) (i_j_points ! 0),
                                 vsub (i_j_points ! 1) (i_j_points ! 0))) = Inr N"
    and "g ''ep_cdp_points'' = Some ep" and "ep \<noteq> []"
    and "linalg_inv (mat_mat (transpose2 (vsub (x_y_points ! 2) (x_y_points ! 0),
                                          vsub (x_y_points ! 1) (x_y_points ! 0))) N) = Inr Ai"
  shows "fst (three_point_set g self x_y_points i_j_points u s) = None"
    and "view (snd (three_point_set g self x_y_points i_j_points u s)) self
         = Some \<lparr>A = mat_mat (transpose2 (vsub (x_y_points ! 2) (x_y_points ! 0),
                                           vsub (x_y_points ! 1) (x_y_points ! 0))) N,
                 b = vsub (x_y_points ! 0)
                       (mat_vec (mat_mat (transpose2 (vsub (x_y_points ! 2) (x_y_points ! 0),
                                           vsub (x_y_points ! 1) (x_y_points ! 0))) N) (ep ! 0)),
                 A_inv = Ai,
                 b_inv = vneg (mat_vec Ai (vsub (x_y_points ! 0)
                       (mat_vec (mat_mat (transpose2 (vsub (x_y_points ! 2) (x_y_points ! 0),
                                           vsub (x_y_points ! 1) (x_y_points ! 0))) N) (ep ! 0)))),
                 utm = u\<rparr>"
  using assms(2-7) view_SomeD(1) [OF assms(1)]
  by (simp_all add: three_point_set_def Let_def new_array_def setattr_def view_def get_mat_def
      get_vec_def nth_append)

lemma fit_exact_when_name_bound:
  assumes v: "view s self = Some t"
    and l: "3 \<le> length x_y_points" "3 \<le> length i_j_points"
    and ns: "\<not> collinear3 i_j_points" and nd: "\<not> collinear3 x_y_points"
    and g: "g ''ep_cdp_points'' = Some i_j_points"
  shows "\<exists>s' t'. three_point_set g self x_y_points i_j_points u s = (None, s')
           \<and> view s' self = Some t' \<and> coherent t' \<and> utm t' = u
           \<and> x_y t' (i_j_points ! 0) = x_y_points ! 0
           \<and> x_y t' (i_j_points ! 1) = x_y_points ! 1
           \<and> x_y t' (i_j_points ! 2) = x_y_points ! 2"
proof -
  let ?dx = "transpose2 (vsub (x_y_points ! 2) (x_y_points ! 0),
                         vsub (x_y_points ! 1) (x_y_points ! 0))"
  let ?ds = "transpose2 (vsub (i_j_points ! 2) (i_j_points ! 0),
                         vsub (i_j_points ! 1) (i_j_points ! 0))"
  from linalg_inv_ds_regular [OF ns] obtain N where N: "linalg_inv ?ds = Inr N" by blast
  let ?A = "mat_mat ?dx N"
  have "det2 ?dx \<noteq> 0" using nd det2_ds [of x_y_points] by simp
  with det2_linalg_inv [OF N] have "det2 ?A \<noteq> 0" by (simp add: det2_mat_mat)
  then obtain Ai where Ai: "linalg_inv ?A = Inr Ai" by (simp add: linalg_inv_def)
  let ?b = "vsub (x_y_points ! 0) (mat_vec ?A (i_j_points ! 0))"
  let ?t = "\<lparr>A = ?A, b = ?b, A_inv = Ai, b_inv = vneg (mat_vec Ai ?b), utm = u\<rparr>"
  have ne: "i_j_points \<noteq> []" using l(2) by auto
  have e1: "fst (three_point_set g self x_y_points i_j_points u s) = None"
    using v l N g ne Ai by (rule fit_eval_bound(1))
  have e2: "view (snd (three_point_set g self x_y_points i_j_points u s)) self = Some ?t"
    using v l N g ne Ai by (rule fit_eval_bound(2))
  have c: "coherent ?t" using Ai by (simp add: coherent_def)
  note m = fit_matrix_maps_differences [OF N, of "vsub (x_y_points ! 2) (x_y_points ! 0)"
      "vsub (x_y_points ! 1) (x_y_points ! 0)"]
  have x0: "x_y ?t (i_j_points ! 0) = x_y_points ! 0"
    by (simp add: x_y_def anchor_offset vsub_self)
  have x1: "x_y ?t (i_j_points ! 1) = x_y_points ! 1"
    using m by (simp add: x_y_def anchor_offset vadd_vsub_cancel)
  have x2: "x_y ?t (i_j_points ! 2) = x_y_points ! 2"
    using m by (simp add: x_y_def anchor_offset vadd_vsub_cancel)
  have "three_point_set g self x_y_points i_j_points u s
        = (None, snd (three_point_set g self x_y_points i_j_points u s))"
    using e1 by (simp add: prod_eq_iff)
  with e2 c x0 x1 x2 show ?thesis
    by (intro exI [of _ "snd (three_point_set g self x_y_points i_j_points u s)"] exI [of _ ?t])
      simp
qed

text \<open>
  With the name bound, points that are collinear in the destination system make \<open>A\<close>
  singular, and \<open>linalg.inv(self.A)\<close> at line 137 raises \<open>LinAlgError\<close>.
\<close>

lemma fit_singular_destination:
  assumes "3 \<le> length x_y_points" and "3 \<le> length i_j_points"
    and "linalg_inv (transpose2 (vsub (i_j_points ! 2) (i_j_points ! 0),
                                 vsub (i_j_points ! 1) (i_j_points ! 0))) = Inr N"
    and "g ''ep_cdp_points'' = Some ep" and "ep \<noteq> []"
    and "collinear3 x_y_points"
  shows "fst (three_point_set g self x_y_points i_j_points u s) = Some LinAlgError"
proof -
  have "det2 (mat_mat (transpose2 (vsub (x_y_points ! 2) (x_y_points ! 0),
                                   vsub (x_y_points ! 1) (x_y_points ! 0))) N) = 0"
    using assms(6) det2_ds [of x_y_points] by (simp add: det2_mat_mat)
  then have "linalg_inv (mat_mat (transpose2 (vsub (x_y_points ! 2) (x_y_points ! 0),
                                   vsub (x_y_points ! 1) (x_y_points ! 0))) N) = Inl LinAlgError"
    by (simp add: linalg_inv_def)
  with assms(1-5) show ?thesis
    by (simp add: three_point_set_def Let_def new_array_def)
qed

subsection \<open>Copies\<close>

lemma clone_eq:
  assumes "view s self = Some t"
  shows "clone self s =
     Inr (length (objs s),
          \<lparr>arrays = arrays s @ [Mat identity2, Vec zeros2, Mat identity2, Vec zeros2,
                                 Mat (A t), Vec (b t), Mat (A_inv t), Vec (b_inv t)],
           objs = objs s @ [\<lparr>A_ref = length (arrays s) + 4, b_ref = length (arrays s) + 5,
                             A_inv_ref = length (arrays s) + 6,
                             b_inv_ref = length (arrays s) + 7, utm_attr = []\<rparr>]\<rparr>)"
  using view_SomeD [OF assms]
  by (simp add: clone_def CoordinateTransform_eq deepcopy_def new_array_def setattr_def
      nth_append)

lemma three_point_set_frame:
  assumes "r \<noteq> self" "view s r = Some v"
  shows "view (snd (three_point_set g self x_y_points i_j_points u s)) r = Some v"
  using assms
  by (simp add: three_point_set_def Let_def case_prod_beta view_setattr_other view_new_array
      split: sum.splits option.splits)

text \<open>
  Claim C9.  For a transform object \<open>t1\<close> of the store, \<open>clone\<close> returns a new object \<open>t2\<close>,
  other than \<open>t1\<close>, whose \<open>A\<close>, \<open>b\<close>, \<open>A_inv\<close>, \<open>b_inv\<close> hold the values \<open>t1\<close> holds (its
  \<open>utm\<close> is the empty string of \<open>__init__\<close>), in four distinct arrays allocated by the call,
  none of which \<open>t1\<close> refers to; \<open>t1\<close> is unchanged; and whatever \<open>three_point_set\<close> then does
  to \<open>t2\<close>, with any arguments and whether or not it raises, \<open>t1\<close> holds what it held.
\<close>

theorem clone_independent:
  assumes "view s t1 = Some v"
  shows "\<exists>t2 s'. clone t1 s = Inr (t2, s')
          \<and> t2 \<noteq> t1
          \<and> view s' t1 = Some v
          \<and> view s' t2 = Some (v\<lparr>utm := []\<rparr>)
          \<and> distinct (refs s' t2)
          \<and> list_all (\<lambda>a. length (arrays s) \<le> a) (refs s' t2)
          \<and> set (refs s' t2) \<inter> set (refs s' t1) = {}
          \<and> (\<forall>g x_y_points i_j_points u.
                view (snd (three_point_set g t2 x_y_points i_j_points u s')) t1 = Some v)"
proof -
  let ?n = "length (arrays s)"
  let ?t2 = "length (objs s)"
  let ?s' = "\<lparr>arrays = arrays s @ [Mat identity2, Vec zeros2, Mat identity2, Vec zeros2,
                                 Mat (A v), Vec (b v), Mat (A_inv v), Vec (b_inv v)],
           objs = objs s @ [\<lparr>A_ref = ?n + 4, b_ref = ?n + 5, A_inv_ref = ?n + 6,
                             b_inv_ref = ?n + 7, utm_attr = []\<rparr>]\<rparr>"
  note d = view_SomeD [OF assms]
  have c: "clone t1 s = Inr (?t2, ?s')" using assms by (rule clone_eq)
  have ne: "?t2 \<noteq> t1" using d(1) by simp
  have v1: "view ?s' t1 = Some v"
    using assms d by (simp add: view_def get_mat_def get_vec_def nth_append)
  have v2: "view ?s' ?t2 = Some (v\<lparr>utm := []\<rparr>)"
    by (simp add: view_def get_mat_def get_vec_def nth_append)
  have r2: "refs ?s' ?t2 = [?n + 4, ?n + 5, ?n + 6, ?n + 7]"
    by (simp add: refs_def)
  have r1: "refs ?s' t1 = refs s t1" using d(1) by (simp add: refs_def nth_append)
  have lt: "list_all (\<lambda>a. a < ?n) (refs s t1)" using d by (simp add: refs_def)
  have dis: "distinct (refs ?s' ?t2)" unfolding r2 by simp
  have fresh: "list_all (\<lambda>a. ?n \<le> a) (refs ?s' ?t2)" unfolding r2 by simp
  have disj: "set (refs ?s' ?t2) \<inter> set (refs ?s' t1) = {}"
    using lt unfolding r1 r2 by (auto simp: list_all_iff)
  have fr: "\<forall>g x_y_points i_j_points u.
                view (snd (three_point_set g ?t2 x_y_points i_j_points u ?s')) t1 = Some v"
    using three_point_set_frame [OF ne [symmetric] v1] by blast
  from c ne v1 v2 dis fresh disj fr show ?thesis by blast
qed

theorem clone_independent_witness:
  "view \<lparr>arrays = [Mat ((1, 0), (0, 1)), Vec (0, 0), Mat ((1, 0), (0, 1)), Vec (0, 0)],
         objs = [\<lparr>A_ref = 0, b_ref = 1, A_inv_ref = 2, b_inv_ref = 3, utm_attr = []\<rparr>]\<rparr> 0
     = Some \<lparr>A = ((1, 0), (0, 1)), b = (0, 0), A_inv = ((1, 0), (0, 1)), b_inv = (0, 0),
             utm = []\<rparr>
   \<and> (\<exists>t2 s'.
        clone 0 \<lparr>arrays = [Mat ((1, 0), (0, 1)), Vec (0, 0), Mat ((1, 0), (0, 1)), Vec (0, 0)],
                 objs = [\<lparr>A_ref = 0, b_ref = 1, A_inv_ref = 2, b_inv_ref = 3,
                          utm_attr = []\<rparr>]\<rparr> = Inr (t2, s')
        \<and> t2 \<noteq> 0
        \<and> view s' t2 = Some \<lparr>A = ((1, 0), (0, 1)), b = (0, 0), A_inv = ((1, 0), (0, 1)),
                              b_inv = (0, 0), utm = []\<rparr>
        \<and> set (refs s' t2) \<inter> set (refs s' 0) = {}
        \<and> map_option A (view (snd (three_point_set baselib_globals t2 [(0, 0), (2, 0), (0, 2)]
                                 [(0, 0), (1, 0), (0, 1)] [] s')) t2)
            = Some ((2, 0), (0, 2))
        \<and> view (snd (three_point_set baselib_globals t2 [(0, 0), (2, 0), (0, 2)]
                       [(0, 0), (1, 0), (0, 1)] [] s')) 0
            = Some \<lparr>A = ((1, 0), (0, 1)), b = (0, 0), A_inv = ((1, 0), (0, 1)), b_inv = (0, 0),
                    utm = []\<rparr>)"
proof -
  let ?s = "\<lparr>arrays = [Mat ((1, 0), (0, 1)), Vec (0, 0), Mat ((1, 0), (0, 1)), Vec (0, 0)],
         objs = [\<lparr>A_ref = 0, b_ref = 1, A_inv_ref = 2, b_inv_ref = 3, utm_attr = []\<rparr>]\<rparr>"
  let ?t = "\<lparr>A = ((1, 0), (0, 1)), b = (0, 0), A_inv = ((1, 0), (0, 1)), b_inv = (0, 0),
             utm = []\<rparr>"
  have l: "3 \<le> length [(0, 0), (2, 0), (0 :: real, 2 :: real)]"
    "3 \<le> length [(0, 0), (1, 0), (0 :: real, 1 :: real)]"
    by simp_all
  from clone_independent [OF view_fresh_object]
  obtain t2 s' where c: "clone 0 ?s = Inr (t2, s')" and ne: "t2 \<noteq> 0"
    and v2: "view s' t2 = Some (?t\<lparr>utm := []\<rparr>)"
    and dj: "set (refs s' t2) \<inter> set (refs s' 0) = {}"
    and fr: "\<forall>g x_y_points i_j_points u.
                view (snd (three_point_set g t2 x_y_points i_j_points u s')) 0 = Some ?t"
    by blast
  have m: "map_option A (view (snd (three_point_set baselib_globals t2 [(0, 0), (2, 0), (0, 2)]
                                 [(0, 0), (1, 0), (0, 1)] [] s')) t2) = Some ((2, 0), (0, 2))"
    using fit_eval_generic(2) [OF v2 l linalg_inv_unit_ds, of "[]"]
    by (simp add: mat_mat_def transpose2_def vsub_def)
  from c ne v2 dj fr m view_fresh_object show ?thesis by auto
qed

subsection \<open>The array forms\<close>

lemma array_forms_affine:
  "x_y_array t i j = affine_arrays 3 (A t) (b t) i j"
  "i_j_array t i j = affine_arrays 3 (A_inv t) (b_inv t) i j"
  "x_y_vector t i j = affine_arrays 2 (A t) (b t) i j"
  "i_j_vector t i j = affine_arrays 2 (A_inv t) (b_inv t) i j"
  unfolding x_y_array_def i_j_array_def x_y_vector_def i_j_vector_def affine_arrays_def Let_def
  by (rule refl)+

lemma entry_transpose2: "entry (transpose2 M) l k = entry M k l"
  by (simp add: entry_def transpose2_def)

lemma affine_arrays_mismatch:
  "shape i \<noteq> shape j \<Longrightarrow> affine_arrays n M v i j = Inl ValueError"
  by (simp add: affine_arrays_def np_array2_def)

lemma affine_arrays_too_many_indices:
  "shape i = shape j \<Longrightarrow> length (shape i) + 1 < n \<Longrightarrow> affine_arrays n M v i j = Inl IndexError"
  by (simp add: affine_arrays_def np_array2_def nd_T_def nd_dot_def nd_add_vec_def subscript_def)

lemma affine_arrays_eq:
  assumes "shape i = shape j" "n \<le> length (shape i) + 1"
  shows "affine_arrays n M v i j =
     Inr (\<lparr>shape = shape i,
           item = (\<lambda>idx. item i idx * entry M 0 0 + item j idx * entry M 0 1 + comp2 v 0)\<rparr>,
          \<lparr>shape = shape i,
           item = (\<lambda>idx. item i idx * entry M 1 0 + item j idx * entry M 1 1 + comp2 v 1)\<rparr>)"
  using assms
  by (simp add: affine_arrays_def np_array2_def nd_T_def nd_dot_def nd_add_vec_def subscript_def
      entry_transpose2 butlast_append)

lemma affine_point:
  "(p * entry M 0 0 + q * entry M 0 1 + comp2 v 0,
    p * entry M 1 0 + q * entry M 1 1 + comp2 v 1) = vadd (mat_vec M (p, q)) v"
  by (simp add: entry_def comp2_def vadd_def mat_vec_def mult.commute)

lemma affine_arrays_elementwise:
  assumes "shape i = shape j" "n \<le> length (shape i) + 1"
  shows "\<exists>X Y. affine_arrays n M v i j = Inr (X, Y) \<and> shape X = shape i \<and> shape Y = shape j
           \<and> (\<forall>idx. (item X idx, item Y idx) = vadd (mat_vec M (item i idx, item j idx)) v)"
  using affine_arrays_eq [OF assms, of M v] assms(1)
  by (simp add: affine_point [unfolded One_nat_def])

text \<open>
  Claim C4, as amended.  For two arrays \<open>i\<close>, \<open>j\<close> of one shape: when their rank is at least
  2, \<open>x_y_array\<close> and \<open>i_j_array\<close> return two arrays of the shape of the inputs whose entry
  at each multi-index is \<open>x_y\<close> (respectively \<open>i_j\<close>) of the pair of input entries there; when
  their rank is at least 1, \<open>x_y_vector\<close> and \<open>i_j_vector\<close> do the same; and when their rank
  is below 2, the return expression \<open>x[0,:,:]\<close> of \<open>x_y_array\<close> and \<open>i_j_array\<close> raises
  \<open>IndexError\<close>.
\<close>

theorem array_forms_elementwise:
  assumes "shape i = shape j"
  shows "(2 \<le> length (shape i) \<longrightarrow>
            (\<exists>X Y. x_y_array t i j = Inr (X, Y) \<and> shape X = shape i \<and> shape Y = shape j
               \<and> (\<forall>idx. valid_index (shape i) idx \<longrightarrow>
                     (item X idx, item Y idx) = x_y t (item i idx, item j idx)))
          \<and> (\<exists>X Y. i_j_array t i j = Inr (X, Y) \<and> shape X = shape i \<and> shape Y = shape j
               \<and> (\<forall>idx. valid_index (shape i) idx \<longrightarrow>
                     (item X idx, item Y idx) = i_j t (item i idx, item j idx))))
       \<and> (1 \<le> length (shape i) \<longrightarrow>
            (\<exists>X Y. x_y_vector t i j = Inr (X, Y) \<and> shape X = shape i \<and> shape Y = shape j
               \<and> (\<forall>idx. valid_index (shape i) idx \<longrightarrow>
                     (item X idx, item Y idx) = x_y t (item i idx, item j idx)))
          \<and> (\<exists>X Y. i_j_vector t i j = Inr (X, Y) \<and> shape X = shape i \<and> shape Y = shape j
               \<and> (\<forall>idx. valid_index (shape i) idx \<longrightarrow>
                     (item X idx, item Y idx) = i_j t (item i idx, item j idx))))
       \<and> (length (shape i) < 2 \<longrightarrow>
            x_y_array t i j = Inl IndexError \<and> i_j_array t i j = Inl IndexError)"
proof (intro conjI impI)
  assume r: "2 \<le> length (shape i)"
  then have n: "3 \<le> length (shape i) + 1" by simp
  from affine_arrays_elementwise [OF assms n, of "A t" "b t"]
  show "\<exists>X Y. x_y_array t i j = Inr (X, Y) \<and> shape X = shape i \<and> shape Y = shape j
               \<and> (\<forall>idx. valid_index (shape i) idx \<longrightarrow>
                     (item X idx, item Y idx) = x_y t (item i idx, item j idx))"
    unfolding array_forms_affine x_y_def by blast
  from affine_arrays_elementwise [OF assms n, of "A_inv t" "b_inv t"]
  show "\<exists>X Y. i_j_array t i j = Inr (X, Y) \<and> shape X = shape i \<and> shape Y = shape j
               \<and> (\<forall>idx. valid_index (shape i) idx \<longrightarrow>
                     (item X idx, item Y idx) = i_j t (item i idx, item j idx))"
    unfolding array_forms_affine i_j_def by blast
next
  assume r: "1 \<le> length (shape i)"
  then have n: "2 \<le> length (shape i) + 1" by simp
  from affine_arrays_elementwise [OF assms n, of "A t" "b t"]
  show "\<exists>X Y. x_y_vector t i j = Inr (X, Y) \<and> shape X = shape i \<and> shape Y = shape j
               \<and> (\<forall>idx. valid_index (shape i) idx \<longrightarrow>
                     (item X idx, item Y idx) = x_y t (item i idx, item j idx))"
    unfolding array_forms_affine x_y_def by blast
  from affine_arrays_elementwise [OF assms n, of "A_inv t" "b_inv t"]
  show "\<exists>X Y. i_j_vector t i j = Inr (X, Y) \<and> shape X = shape i \<and> shape Y = shape j
               \<and> (\<forall>idx. valid_index (shape i) idx \<longrightarrow>
                     (item X idx, item Y idx) = i_j t (item i idx, item j idx))"
    unfolding array_forms_affine i_j_def by blast
next
  assume r: "length (shape i) < 2"
  then have n: "length (shape i) + 1 < 3" by simp
  show "x_y_array t i j = Inl IndexError"
    unfolding array_forms_affine using assms n by (rule affine_arrays_too_many_indices)
  show "i_j_array t i j = Inl IndexError"
    unfolding array_forms_affine using assms n by (rule affine_arrays_too_many_indices)
qed

theorem array_forms_elementwise_witness:
  "shape (np_array_rows [[1, 2], [3, 4]]) = shape (np_array_rows [[5, 6], [7, 8]])
   \<and> 2 \<le> length (shape (np_array_rows [[1, 2], [3, 4]]))
   \<and> valid_index (shape (np_array_rows [[1, 2], [3, 4]])) [1, 0]
   \<and> (\<exists>X Y. x_y_array \<lparr>A = ((2, 0), (0, 4)), b = (1, 1), A_inv = ((1/2, 0), (0, 1/4)),
                          b_inv = (-1/2, -1/4), utm = []\<rparr>
                 (np_array_rows [[1, 2], [3, 4]]) (np_array_rows [[5, 6], [7, 8]]) = Inr (X, Y)
          \<and> shape X = [2, 2] \<and> shape Y = [2, 2] \<and> item X [1, 0] = 7 \<and> item Y [1, 0] = 29)
   \<and> (\<exists>X Y. x_y_vector \<lparr>A = ((2, 0), (0, 4)), b = (1, 1), A_inv = ((1/2, 0), (0, 1/4)),
                          b_inv = (-1/2, -1/4), utm = []\<rparr>
                 (np_array_rows [[1, 2], [3, 4]]) (np_array_rows [[5, 6], [7, 8]]) = Inr (X, Y)
          \<and> shape X = [2, 2] \<and> shape Y = [2, 2] \<and> item X [1, 0] = 7 \<and> item Y [1, 0] = 29)"
proof -
  let ?i = "np_array_rows [[1, 2], [3, 4]]"
  let ?j = "np_array_rows [[5, 6], [7, 8]]"
  let ?t = "\<lparr>A = ((2, 0), (0, 4)), b = (1, 1), A_inv = ((1/2, 0), (0, 1/4)),
             b_inv = (-1/2, -1/4), utm = []\<rparr>"
  have s: "shape ?i = shape ?j" and si: "shape ?i = [2, 2]" and sj: "shape ?j = [2, 2]"
    by (simp_all add: np_array_rows_def)
  have r: "2 \<le> length (shape ?i)" "1 \<le> length (shape ?i)" by (simp_all add: np_array_rows_def)
  have v: "valid_index (shape ?i) [1, 0]" by (simp add: np_array_rows_def valid_index_def)
  have p: "x_y ?t (item ?i [1, 0], item ?j [1, 0]) = (7, 29)"
    by (simp add: np_array_rows_def x_y_def vadd_def mat_vec_def)
  note th = array_forms_elementwise [OF s, of ?t]
  from th r(1) obtain X Y where a: "x_y_array ?t ?i ?j = Inr (X, Y)" "shape X = shape ?i"
    "shape Y = shape ?j"
    "\<forall>idx. valid_index (shape ?i) idx \<longrightarrow> (item X idx, item Y idx) = x_y ?t (item ?i idx, item ?j idx)"
    by blast
  from a(4) v p have a': "item X [1, 0] = 7 \<and> item Y [1, 0] = 29" by auto
  from th r(2) obtain X' Y' where b: "x_y_vector ?t ?i ?j = Inr (X', Y')" "shape X' = shape ?i"
    "shape Y' = shape ?j"
    "\<forall>idx. valid_index (shape ?i) idx \<longrightarrow> (item X' idx, item Y' idx) = x_y ?t (item ?i idx, item ?j idx)"
    by blast
  from b(4) v p have b': "item X' [1, 0] = 7 \<and> item Y' [1, 0] = 29" by auto
  from s r(1) v a(1-3) a' b(1-3) b' si sj show ?thesis by auto
qed

text \<open>
  Claim C4 as stated includes rank 1 for \<open>x_y_array\<close>.  On the rank-1 arrays \<open>[1, 2]\<close> and
  \<open>[3, 4]\<close>, \<open>x\<close> has two axes and \<open>x[0,:,:]\<close> raises \<open>IndexError\<close>.
\<close>

theorem x_y_array_rank1_counterexample:
  "x_y_array \<lparr>A = ((1, 0), (0, 1)), b = (0, 0), A_inv = ((1, 0), (0, 1)), b_inv = (0, 0),
              utm = []\<rparr> (np_array1 [1, 2]) (np_array1 [3, 4]) = Inl IndexError"
  by (simp add: x_y_array_def np_array2_def nd_T_def nd_dot_def nd_add_vec_def subscript_def
      np_array1_def)

text \<open>
  Claim C5.  When the two input arrays have unequal shapes, each of \<open>x_y_array\<close>,
  \<open>i_j_array\<close>, \<open>x_y_vector\<close>, \<open>i_j_vector\<close> raises at its first statement,
  \<open>np.array([i, j])\<close>, and so returns no array at all.  The exception numpy raises there is
  \<open>ValueError\<close>; the code defines no exception class of its own.
\<close>

theorem mismatched_shapes_raise:
  assumes "shape i \<noteq> shape j"
  shows "x_y_array t i j = Inl ValueError \<and> i_j_array t i j = Inl ValueError
       \<and> x_y_vector t i j = Inl ValueError \<and> i_j_vector t i j = Inl ValueError"
  using assms
  by (simp add: array_forms_affine affine_arrays_mismatch)

theorem mismatched_shapes_raise_witness:
  "shape (np_zeros [3, 4]) \<noteq> shape (np_zeros [3, 5])
   \<and> x_y_array \<lparr>A = ((1, 0), (0, 1)), b = (0, 0), A_inv = ((1, 0), (0, 1)), b_inv = (0, 0),
              utm = []\<rparr> (np_zeros [3, 4]) (np_zeros [3, 5]) = Inl ValueError
   \<and> i_j_array \<lparr>A = ((1, 0), (0, 1)), b = (0, 0), A_inv = ((1, 0), (0, 1)), b_inv = (0, 0),
              utm = []\<rparr> (np_zeros [3, 4]) (np_zeros [3, 5]) = Inl ValueError
   \<and> x_y_vector \<lparr>A = ((1, 0), (0, 1)), b = (0, 0), A_inv = ((1, 0), (0, 1)), b_inv = (0, 0),
              utm = []\<rparr> (np_zeros [3, 4]) (np_zeros [3, 5]) = Inl ValueError
   \<and> i_j_vector \<lparr>A = ((1, 0), (0, 1)), b = (0, 0), A_inv = ((1, 0), (0, 1)), b_inv = (0, 0),
              utm = []\<rparr> (np_zeros [3, 4]) (np_zeros [3, 5]) = Inl ValueError"
proof -
  have h: "shape (np_zeros [3, 4]) \<noteq> shape (np_zeros [3, 5])"
    by (simp add: np_zeros_def)
  from h mismatched_shapes_raise [OF h] show ?thesis by blast
qed

subsection \<open>Float64 rounding\<close>

lemma nbits_numeral [simp]:
  "nbits 0 = 0"
  "nbits (numeral k) = Suc (nbits (numeral k div 2))"
  "nbits (Suc 0) = Suc 0"
  by (simp_all add: nbits.simps)

lemmas fl_eval = fl_def expo_def round_even_def pow2_def Let_def

lemma fl_zero [simp]: "fl 0 = 0"
  by (simp add: fl_def)

text \<open>
  \<open>expo\<close> is the binary exponent, and \<open>fl\<close> moves a number by at most half a unit in the
  last place: the relative error of one operation is at most \<open>2 ^ -53\<close>.
\<close>

lemma nbits_bounds:
  "0 < n \<Longrightarrow> 2 ^ (nbits n - 1) \<le> n \<and> n < 2 ^ nbits n"
proof (induction n rule: nbits.induct)
  case (1 n)
  show ?case
  proof (cases "n div 2 = 0")
    case True
    with "1.prems" have "n = 1" by (cases n) (auto simp: div_eq_0_iff)
    then show ?thesis by (simp add: nbits.simps)
  next
    case False
    then have p: "0 < n div 2" by simp
    from "1.prems" have n0: "n \<noteq> 0" by simp
    from "1.IH" [OF n0 p]
    have ih: "2 ^ (nbits (n div 2) - 1) \<le> n div 2" "n div 2 < 2 ^ nbits (n div 2)" by simp_all
    have nb: "nbits n = Suc (nbits (n div 2))" using n0 by (simp add: nbits.simps [of n])
    have pos: "0 < nbits (n div 2)" using p by (simp add: nbits.simps [of "n div 2"])
    then obtain k where k: "nbits (n div 2) = Suc k" by (cases "nbits (n div 2)") auto
    from ih(1) k have "2 * 2 ^ k \<le> 2 * (n div 2)" by simp
    also have "\<dots> \<le> n" by simp
    finally have lo: "2 ^ (nbits n - 1) \<le> n" by (simp add: nb k)
    from ih(2) have "n div 2 + 1 \<le> 2 ^ nbits (n div 2)" by simp
    then have "2 * (n div 2) + 2 \<le> 2 * 2 ^ nbits (n div 2)" by simp
    moreover have "n < 2 * (n div 2) + 2" by presburger
    ultimately have hi: "n < 2 ^ nbits n" by (simp add: nb)
    from lo hi show ?thesis by simp
  qed
qed

lemma pow2_powi: "pow2 k = 2 powi k"
  by (simp add: pow2_def power_int_def power_one_over inverse_eq_divide)

lemma pow2_pos [simp]: "0 < pow2 k"
  by (simp add: pow2_powi)

lemma pow2_add: "pow2 (j + k) = pow2 j * pow2 k"
  by (simp add: pow2_powi power_int_add)

lemma pow2_neg: "pow2 (- k) = 1 / pow2 k"
  by (simp add: pow2_powi power_int_minus inverse_eq_divide)

lemma pow2_nat: "pow2 (int n) = 2 ^ n"
  by (simp add: pow2_def)

lemma pow2_step: "pow2 (k + 1) = 2 * pow2 k"
proof -
  have "pow2 1 = 2" by (simp add: pow2_def)
  with pow2_add [of k 1] show ?thesis by simp
qed

lemma pow2_less_step: "pow2 k < pow2 (k + 1)"
  using pow2_pos [of k] pow2_step [of k] by linarith

lemma pow2_inv_upper:
  assumes "a * pow2 j < 1"
  shows "a < pow2 (- j)"
proof -
  have "a < 1 / pow2 j"
    using assms by (simp only: pos_less_divide_eq [OF pow2_pos])
  then show ?thesis by (simp only: pow2_neg)
qed

lemma pow2_inv_lower:
  assumes "1 < a * pow2 (j + 1)"
  shows "pow2 (- j - 1) < a"
proof -
  have "1 / pow2 (j + 1) < a"
    using assms by (simp only: pos_divide_less_eq [OF pow2_pos])
  moreover have "- j - 1 = - (j + 1)" by simp
  ultimately show ?thesis by (simp only: pow2_neg)
qed

lemma floor_bracket:
  fixes y :: real
  assumes "1 \<le> y"
  shows "pow2 (int (nbits (nat \<lfloor>y\<rfloor>)) - 1) \<le> y \<and> y < pow2 (int (nbits (nat \<lfloor>y\<rfloor>)))"
proof -
  let ?k = "nat \<lfloor>y\<rfloor>"
  from assms have k: "0 < ?k" by simp
  from nbits_bounds [OF k] have b: "2 ^ (nbits ?k - 1) \<le> ?k" "?k < 2 ^ nbits ?k" by simp_all
  have pos: "0 < nbits ?k" using k by (simp add: nbits.simps [of ?k])
  have ky: "real ?k \<le> y" using assms by (simp add: of_nat_nat)
  have yk: "y < real ?k + 1" using assms by (simp add: of_nat_nat)
  have "(2::real) ^ (nbits ?k - 1) \<le> real ?k" using b(1)
    by (metis of_nat_le_iff of_nat_numeral of_nat_power)
  from this ky have lo: "(2::real) ^ (nbits ?k - 1) \<le> y" by (rule order_trans)
  have "real ?k + 1 \<le> 2 ^ nbits ?k" using b(2)
    by (metis Suc_leI of_nat_Suc of_nat_le_iff of_nat_numeral of_nat_power add.commute)
  from yk this have hi: "y < 2 ^ nbits ?k" by (rule less_le_trans)
  have e: "int (nbits ?k) - 1 = int (nbits ?k - 1)" using pos by simp
  show ?thesis using lo hi unfolding e pow2_nat by simp
qed

lemma expo_bounds:
  assumes "x \<noteq> 0"
  shows "pow2 (expo x) \<le> \<bar>x\<bar> \<and> \<bar>x\<bar> < pow2 (expo x + 1)"
proof (cases "1 \<le> \<bar>x\<bar>")
  case True
  with floor_bracket [OF True] show ?thesis by (simp add: expo_def)
next
  case False
  let ?y = "1 / \<bar>x\<bar>"
  let ?j = "int (nbits (nat \<lfloor>?y\<rfloor>)) - 1"
  from False assms have y1: "1 \<le> ?y" by (simp add: field_simps)
  from floor_bracket [OF y1] have b: "pow2 ?j \<le> ?y" "?y < pow2 (?j + 1)" by simp_all
  have xpos: "0 < \<bar>x\<bar>" using assms by simp
  from b(1) xpos have up: "\<bar>x\<bar> * pow2 ?j \<le> 1" by (simp add: field_simps)
  from b(2) xpos have lo: "1 < \<bar>x\<bar> * pow2 (?j + 1)" by (simp add: field_simps)
  show ?thesis
  proof (cases "\<bar>x\<bar> * pow2 ?j = 1")
    case True
    have nz: "pow2 ?j \<noteq> 0" by (metis pow2_pos less_irrefl)
    from True have "\<bar>x\<bar> = 1 / pow2 ?j"
      by (simp only: nonzero_eq_divide_eq [OF nz])
    then have x: "\<bar>x\<bar> = pow2 (- ?j)" by (simp only: pow2_neg)
    have e: "expo x = - ?j" using False True by (simp add: expo_def Let_def)
    have "pow2 (- ?j) < pow2 (- ?j + 1)" by (rule pow2_less_step)
    with x have lt: "\<bar>x\<bar> < pow2 (- ?j + 1)" by (rule ord_eq_less_trans)
    from x have le: "pow2 (- ?j) \<le> \<bar>x\<bar>" by (rule eq_refl [OF sym])
    from le lt show ?thesis unfolding e by (rule conjI)
  next
    case ne: False
    have e: "expo x = - ?j - 1" using False ne by (simp add: expo_def Let_def)
    from up ne have "\<bar>x\<bar> * pow2 ?j < 1" by simp
    then have hi: "\<bar>x\<bar> < pow2 (- ?j)" by (rule pow2_inv_upper)
    from lo have "pow2 (- ?j - 1) < \<bar>x\<bar>" by (rule pow2_inv_lower)
    with hi have "pow2 (- ?j - 1) \<le> \<bar>x\<bar> \<and> \<bar>x\<bar> < pow2 (- ?j - 1 + 1)"
      by (simp add: less_imp_le)
    then show ?thesis unfolding e .
  qed
qed

lemma round_even_near: "\<bar>of_int (round_even q) - q\<bar> \<le> 1 / 2"
proof -
  have "of_int \<lfloor>q\<rfloor> \<le> q" "q < of_int \<lfloor>q\<rfloor> + 1" by linarith+
  then show ?thesis by (auto simp: round_even_def Let_def)
qed

lemma fl_near: "\<bar>fl x - x\<bar> \<le> pow2 (expo x - 53)"
proof (cases "x = 0")
  case True
  then show ?thesis using pow2_pos [of "expo x - 53"] by (simp add: fl_def less_imp_le)
next
  case False
  let ?q = "x * pow2 (52 - expo x)"
  have u: "pow2 (52 - expo x) * pow2 (expo x - 52) = 1"
    using pow2_add [of "52 - expo x" "expo x - 52"] by (simp add: pow2_def)
  have "fl x - x = (of_int (round_even ?q) - ?q) * pow2 (expo x - 52)"
    using False u by (simp add: fl_def algebra_simps)
  then have "\<bar>fl x - x\<bar> = \<bar>of_int (round_even ?q) - ?q\<bar> * pow2 (expo x - 52)"
    by (simp only: abs_mult abs_of_pos [OF pow2_pos])
  also have "\<dots> \<le> 1 / 2 * pow2 (expo x - 52)"
    using round_even_near [of ?q] by (simp add: mult_right_mono less_imp_le)
  also have "\<dots> = pow2 (expo x - 53)"
    using pow2_add [of "expo x - 53" 1] by (simp add: pow2_def)
  finally show ?thesis .
qed

lemma fl_relative: "\<bar>fl x - x\<bar> \<le> \<bar>x\<bar> / 2 ^ 53"
proof (cases "x = 0")
  case True
  then show ?thesis by (simp add: fl_def)
next
  case False
  have "pow2 (expo x - 53) = pow2 (expo x) / 2 ^ 53"
    using pow2_add [of "expo x" "- 53"] by (simp add: pow2_def)
  also have "\<dots> \<le> \<bar>x\<bar> / 2 ^ 53"
    using expo_bounds [OF False] by (simp add: divide_right_mono)
  finally show ?thesis using fl_near [of x] by simp
qed

text \<open>The result of \<open>fl\<close> has a significand of at most 53 binary digits.\<close>

lemma fl_grid:
  assumes "x \<noteq> 0"
  shows "\<exists>m. fl x = of_int m * pow2 (expo x - 52) \<and> \<bar>m\<bar> \<le> 2 ^ 53"
proof -
  let ?q = "x * pow2 (52 - expo x)"
  let ?m = "round_even ?q"
  have aq: "\<bar>?q\<bar> = \<bar>x\<bar> * pow2 (52 - expo x)"
    by (simp only: abs_mult abs_of_pos [OF pow2_pos])
  have "pow2 (expo x + 1) * pow2 (52 - expo x) = 2 ^ 53"
    using pow2_add [of "expo x + 1" "52 - expo x"] by (simp add: pow2_def)
  moreover have "\<bar>x\<bar> * pow2 (52 - expo x) < pow2 (expo x + 1) * pow2 (52 - expo x)"
    using expo_bounds [OF assms] by (simp add: mult_strict_right_mono)
  ultimately have q: "\<bar>?q\<bar> < 2 ^ 53" using aq by simp
  have "\<bar>of_int ?m - ?q\<bar> \<le> 1 / 2" by (rule round_even_near)
  with q have "\<bar>real_of_int ?m\<bar> < 2 ^ 53 + 1" by linarith
  then have "\<bar>?m\<bar> < 2 ^ 53 + 1"
    by (metis (mono_tags) of_int_abs of_int_less_iff of_int_numeral of_int_power of_int_add of_int_1)
  then have "\<bar>?m\<bar> \<le> 2 ^ 53" by simp
  moreover have "fl x = of_int ?m * pow2 (expo x - 52)" using assms by (simp add: fl_def)
  ultimately show ?thesis by blast
qed

subsection \<open>The exact library\<close>

lemma three_point_set_exact:
  "three_point_set_lib exact_lib g self x_y_points i_j_points u s
   = three_point_set g self x_y_points i_j_points u s"
  unfolding three_point_set_lib_def three_point_set_def exact_lib_def numlib.select_convs
  by (rule refl)


subsection \<open>The round trip in float64\<close>






subsection \<open>The fit when the inversion raises\<close>

lemma inv_f64_line: "linalg_inv_f64 ((2, 1), (0, 0)) = Inl LinAlgError"
  by (simp add: linalg_inv_f64_def fl_eval)












subsection \<open>The fit on small integers in float64\<close>

text \<open>
  On the inputs at which \<open>three_point_set\<close> is evaluated above (a newly constructed
  transform, source points (0,0), (1,0), (0,1), each of the three lists of destination
  points), no float64 operation rounds: the float64 library leaves the same exception and the
  same store as exact arithmetic.
\<close>

lemma inv_f64_unit: "linalg_inv_f64 ((0, 1), (1, 0)) = Inr ((0, 1), (1, 0))"
  by (simp add: linalg_inv_f64_def fl_eval)

lemma float64_agrees_on_small_inputs:
  assumes "dst = [(5, 5), (6, 5), (5, 6)] \<or> dst = [(0, 0), (2, 0), (0, 3)]
           \<or> dst = [(0, 0), (2, 0), (0, 2)]"
  shows "three_point_set_lib float64_lib baselib_globals 0 dst [(0, 0), (1, 0), (0, 1)] []
           \<lparr>arrays = [Mat ((1, 0), (0, 1)), Vec (0, 0), Mat ((1, 0), (0, 1)), Vec (0, 0)],
            objs = [\<lparr>A_ref = 0, b_ref = 1, A_inv_ref = 2, b_inv_ref = 3, utm_attr = []\<rparr>]\<rparr>
         = three_point_set baselib_globals 0 dst [(0, 0), (1, 0), (0, 1)] []
           \<lparr>arrays = [Mat ((1, 0), (0, 1)), Vec (0, 0), Mat ((1, 0), (0, 1)), Vec (0, 0)],
            objs = [\<lparr>A_ref = 0, b_ref = 1, A_inv_ref = 2, b_inv_ref = 3, utm_attr = []\<rparr>]\<rparr>"
proof -
  have s: "vsub_f64 (0, 1) (0, 0) = (0, 1)" "vsub_f64 (1, 0) (0, 0) = (1, 0)"
    by (simp_all add: vsub_f64_def fl_eval)
  have e: "linalg_inv ((0, 1), (1, 0)) = Inr ((0, 1), (1, 0))"
    by (simp add: linalg_inv_def det2_def)
  have g: "baselib_globals ''ep_cdp_points'' = None" by (simp add: baselib_globals_def)
  from assms show ?thesis
  proof (elim disjE)
    assume d: "dst = [(5, 5), (6, 5), (5, 6)]"
    show ?thesis unfolding d
      by (simp add: three_point_set_lib_def three_point_set_def float64_lib_def s e g
          inv_f64_unit transpose2_def vsub_def new_array_def setattr_def mat_mat_def
          mat_mat_f64_def vsub_f64_def fl_eval)
  next
    assume d: "dst = [(0, 0), (2, 0), (0, 3)]"
    show ?thesis unfolding d
      by (simp add: three_point_set_lib_def three_point_set_def float64_lib_def s e g
          inv_f64_unit transpose2_def vsub_def new_array_def setattr_def mat_mat_def
          mat_mat_f64_def vsub_f64_def fl_eval)
  next
    assume d: "dst = [(0, 0), (2, 0), (0, 2)]"
    show ?thesis unfolding d
      by (simp add: three_point_set_lib_def three_point_set_def float64_lib_def s e g
          inv_f64_unit transpose2_def vsub_def new_array_def setattr_def mat_mat_def
          mat_mat_f64_def vsub_f64_def fl_eval)
  qed
qed

text \<open>
  Whatever the library computes, \<open>three_point_set\<close> on one transform object leaves every
  other transform object of the store as it was.
\<close>

lemma three_point_set_lib_frame:
  assumes "r \<noteq> self" "view s r = Some v"
  shows "view (snd (three_point_set_lib L g self x_y_points i_j_points u s)) r = Some v"
  using assms
  by (simp add: three_point_set_lib_def Let_def case_prod_beta view_setattr_other view_new_array
      split: sum.splits option.splits)

end
